theory Spec2Isabelle
  imports Complex_Main "HOL-Library.Char_ord" "HOL-Library.List_Lexorder"
begin

section \<open>Gene Expression Programming: the Chromosome class\<close>

text \<open>
  A shallow embedding of \<^verbatim>\<open>src/Chromosome.py\<close>. Python exceptions are values of the
  type \<open>error\<close>; a function that can raise returns \<open>error + 'a\<close> with \<open>Inl\<close> the
  exception. Class-level attributes of \<^verbatim>\<open>Chromosome\<close> are the record \<open>config\<close>, passed
  explicitly; instance attributes are the record \<open>chromosome\<close>, returned updated by every
  method that assigns to \<^verbatim>\<open>self\<close>.
\<close>

subsection \<open>Exceptions, symbols, trees\<close>

datatype error =
    IndexError | KeyError | ValueError | TypeError | ZeroDivisionError | OverflowError

text \<open>A symbol is a Python \<^verbatim>\<open>str\<close>; a character of a gene is a string of length one.\<close>

type_synonym symbol = string

text \<open>
  An anytree \<^verbatim>\<open>Node\<close> seen from its root downwards: its \<^verbatim>\<open>name\<close> and the ordered
  sequence of its \<^verbatim>\<open>children\<close>.
\<close>

datatype tree = Node (name: symbol) (children: "tree list")

subsection \<open>Numeric values\<close>

text \<open>
  Python floats and ints are idealised: a finite number is an exact real, and the three
  special floats are kept apart. \<open>pyval\<close> is what a callable or a lookup can yield.
\<close>

datatype num = Fin real | PInf | NInf | NaN

datatype pyval = Num num | Cplx complex | PyNone

subsection \<open>Class-level configuration\<close>

text \<open>
  \<^verbatim>\<open>functions[s]\<close> is a dict with the keys \<^verbatim>\<open>"args"\<close> (the arity) and \<^verbatim>\<open>"f"\<close> (the
  callable). A callable takes the argument list and returns a value or raises.
\<close>

record func_entry =
  f_args :: nat
  f_call :: "pyval list \<Rightarrow> error + pyval"

type_synonym bindings = "(symbol \<times> pyval) list"

record config =
  functions' :: "symbol \<rightharpoonup> func_entry"
  terminals :: "symbol list"
  constants :: "symbol \<rightharpoonup> pyval"
  ephemeral_random_constants_range :: "(real \<times> real) option"
  linking_function :: "symbol option"
  num_genes :: int
  head_length :: "int option"
  chrom_length :: "int option"
  fitness_cases :: "(bindings \<times> num) list"

subsection \<open>build_tree\<close>

text \<open>The local helper \<^verbatim>\<open>args(f)\<close>: the arity of a function symbol, 0 for anything else.\<close>

definition args :: "config \<Rightarrow> symbol \<Rightarrow> nat" where
  "args cfg s = (case functions' cfg s of Some e \<Rightarrow> f_args e | None \<Rightarrow> 0)"

text \<open>\<^verbatim>\<open>sum([args(f) for f in level])\<close> for a level, which is a string.\<close>

definition sum_args :: "config \<Rightarrow> string \<Rightarrow> nat" where
  "sum_args cfg lv = sum_list (map (\<lambda>c. args cfg [c]) lv)"

text \<open>\<^verbatim>\<open>s[a:b]\<close> for \<open>0 \<le> a \<le> b\<close>: Python clamps a slice to the string.\<close>

definition py_slice :: "'a list \<Rightarrow> nat \<Rightarrow> nat \<Rightarrow> 'a list" where
  "py_slice s a b = take (b - a) (drop a s)"

text \<open>\<^verbatim>\<open>xs[i]\<close> for \<open>i \<ge> 0\<close>: IndexError out of range.\<close>

definition py_index :: "'a list \<Rightarrow> nat \<Rightarrow> error + 'a" where
  "py_index xs i = (if i < length xs then Inr (xs ! i) else Inl IndexError)"

text \<open>
  The \<^verbatim>\<open>while\<close> loop of \<^verbatim>\<open>build_tree\<close> that cuts the gene into levels. \<open>levels\<close> is
  never empty here: it starts as \<^verbatim>\<open>[gene[0]]\<close> and only grows.
\<close>

function build_levels :: "config \<Rightarrow> string \<Rightarrow> string list \<Rightarrow> nat \<Rightarrow> string list" where
  "build_levels cfg gene levels index =
     (if index < length gene \<and> sum_args cfg (last levels) \<noteq> 0 then
        (let nargs = sum_args cfg (last levels) in
         build_levels cfg gene
           (levels @ [py_slice gene (index + 1) (index + 1 + nargs)]) (index + nargs))
      else levels)"
  by pat_completeness auto
termination
  by (relation "measure (\<lambda>(cfg, gene, levels, index). length gene - index)") auto

text \<open>
  \<^verbatim>\<open>grab_children(parent, current_level)\<close> with its \<^verbatim>\<open>for i in range(nargs)\<close> loop as
  \<open>grab_for\<close>. The nonlocal list \<^verbatim>\<open>levels\<close> is threaded through; the result is the
  list of children attached to \<^verbatim>\<open>parent\<close> and the list of levels as left behind.
\<close>

function
  grab_children :: "config \<Rightarrow> symbol \<Rightarrow> nat \<Rightarrow> string list \<Rightarrow> error + (tree list \<times> string list)"
and
  grab_for :: "config \<Rightarrow> nat \<Rightarrow> nat \<Rightarrow> nat \<Rightarrow> tree list \<Rightarrow> string list
    \<Rightarrow> error + (tree list \<times> string list)"
where
  "grab_children cfg parent current_level levels =
     (if current_level < length levels
      then grab_for cfg current_level 0 (args cfg parent) [] levels
      else Inr ([], levels))"
| "grab_for cfg current_level i nargs kids levels =
     (if i < nargs then
        (case py_index levels current_level of
           Inl e \<Rightarrow> Inl e
         | Inr lv \<Rightarrow>
            (case py_index lv i of
               Inl e \<Rightarrow> Inl e
             | Inr c \<Rightarrow>
                (case grab_children cfg [c] (current_level + 1) levels of
                   Inl e \<Rightarrow> Inl e
                 | Inr (sub, levels') \<Rightarrow>
                     grab_for cfg current_level (i + 1) nargs (kids @ [Node [c] sub])
                       (if current_level < length levels' - 1
                        then levels'[current_level + 1 :=
                               drop (args cfg [c]) (levels' ! (current_level + 1))]
                        else levels'))))
      else Inr (kids, levels))"
  by pat_completeness auto

termination
proof -
  have grab_length_dom:
    "grab_children_grab_for_dom (Inl (cfg, parent, cl, levels)) \<Longrightarrow>
       grab_children cfg parent cl levels = Inr (ks, levels') \<Longrightarrow>
       length levels' = length levels"
    "grab_children_grab_for_dom (Inr (cfg, cl, i, nargs, kids, levels)) \<Longrightarrow>
       grab_for cfg cl i nargs kids levels = Inr (ks, levels') \<Longrightarrow>
       length levels' = length levels"
    for cfg parent cl levels ks levels' i nargs kids
  proof (induction cfg parent cl levels and cfg cl i nargs kids levels
         arbitrary: ks levels' and ks levels' rule: grab_children_grab_for.pinduct)
    case (1 cfg parent current_level levels)
    then show ?case
      by (auto simp: grab_children.psimps split: if_splits)
  next
    case (2 cfg current_level i nargs kids levels)
    show ?case
    proof (cases "i < nargs")
      case False
      with 2(1,4) show ?thesis by (simp add: grab_for.psimps)
    next
      case True
      have eq: "grab_for cfg current_level i nargs kids levels =
          (case py_index levels current_level of
             Inl e \<Rightarrow> Inl e
           | Inr lv \<Rightarrow>
              (case py_index lv i of
                 Inl e \<Rightarrow> Inl e
               | Inr c \<Rightarrow>
                  (case grab_children cfg [c] (current_level + 1) levels of
                     Inl e \<Rightarrow> Inl e
                   | Inr (sub, levels') \<Rightarrow>
                       grab_for cfg current_level (i + 1) nargs (kids @ [Node [c] sub])
                         (if current_level < length levels' - 1
                          then levels'[current_level + 1 :=
                                 drop (args cfg [c]) (levels' ! (current_level + 1))]
                          else levels'))))"
        using True by (subst grab_for.psimps[OF 2(1)]) simp
      from 2(4) have r: "(case py_index levels current_level of
             Inl e \<Rightarrow> Inl e
           | Inr lv \<Rightarrow>
              (case py_index lv i of
                 Inl e \<Rightarrow> Inl e
               | Inr c \<Rightarrow>
                  (case grab_children cfg [c] (current_level + 1) levels of
                     Inl e \<Rightarrow> Inl e
                   | Inr (sub, levels') \<Rightarrow>
                       grab_for cfg current_level (i + 1) nargs (kids @ [Node [c] sub])
                         (if current_level < length levels' - 1
                          then levels'[current_level + 1 :=
                                 drop (args cfg [c]) (levels' ! (current_level + 1))]
                          else levels')))) = Inr (ks, levels')"
        unfolding eq .
      obtain lv where a: "py_index levels current_level = Inr lv"
        using r by (cases "py_index levels current_level") simp_all
      obtain c where b: "py_index lv i = Inr c"
        using r unfolding a by (cases "py_index lv i") simp_all
      obtain sub lv1 where c: "grab_children cfg [c] (current_level + 1) levels = Inr (sub, lv1)"
        using r unfolding a b sum.case
        by (cases "grab_children cfg [c] (current_level + 1) levels") auto
      have d: "grab_for cfg current_level (i + 1) nargs (kids @ [Node [c] sub])
              (if current_level < length lv1 - 1
               then lv1[current_level + 1 := drop (args cfg [c]) (lv1 ! (current_level + 1))]
               else lv1) = Inr (ks, levels')"
        using r unfolding a b c sum.case prod.case .
      from 2(2)[OF True a b c] have e: "length lv1 = length levels" .
      from 2(3)[OF True a b c refl d] e show ?thesis by (simp split: if_splits)
    qed
  qed
  show ?thesis
  proof (relation "inv_image (less_than <*lex*> less_than <*lex*> less_than)
         (\<lambda>x. case x of
             Inl (cfg, parent, cl, levels) \<Rightarrow> (length levels - cl, 1::nat, 0::nat)
           | Inr (cfg, cl, i, nargs, kids, levels) \<Rightarrow> (length levels - cl, 0, nargs - i))",
         goal_cases)
    case 1
    show ?case by (intro wf_inv_image wf_lex_prod wf_less_than)
  next
    case (2 cfg parent current_level levels)
    then show ?case by simp
  next
    case (3 cfg current_level i nargs kids levels x2 x2a)
    then show ?case by (auto simp: py_index_def split: if_splits)
  next
    case (4 cfg current_level i nargs kids levels x2 x2a x2b x y)
    from 4 have "grab_children cfg [x2a] (current_level + 1) levels = Inr (x, y)"
      by simp
    from grab_length_dom(1)[OF 4(6) this] 4(1)
    show ?case by (auto split: if_splits)
  qed
qed

text \<open>
  \<^verbatim>\<open>build_tree(gene)\<close>: \<^verbatim>\<open>gene[0]\<close> raises IndexError on the empty string; the root is
  \<^verbatim>\<open>Node(gene[0])\<close> and \<^verbatim>\<open>grab_children(tree)\<close> starts at level 1.
\<close>

definition build_tree :: "config \<Rightarrow> string \<Rightarrow> error + tree" where
  "build_tree cfg gene =
     (case py_index gene 0 of
        Inl e \<Rightarrow> Inl e
      | Inr c \<Rightarrow>
         (let levels = build_levels cfg gene [[c]] 0 in
          case grab_children cfg [c] 1 levels of
            Inl e \<Rightarrow> Inl e
          | Inr (kids, levels') \<Rightarrow> Inr (Node [c] kids)))"

subsection \<open>The breadth-first rule of the specification\<close>

text \<open>
  The rule as the specification words it, on a list of levels. \<open>attach cfg lv below\<close> makes
  the nodes of one level, left to right: each takes the next \<open>args\<close> not yet assigned
  trees of the level below as its children, in order. \<open>forest\<close> does so for every level,
  deepest first, and yields the trees rooted at the first level.
\<close>

fun attach :: "config \<Rightarrow> string \<Rightarrow> tree list \<Rightarrow> tree list" where
  "attach cfg [] below = []"
| "attach cfg (c # cs) below =
     Node [c] (take (args cfg [c]) below) # attach cfg cs (drop (args cfg [c]) below)"

fun forest :: "config \<Rightarrow> string list \<Rightarrow> tree list" where
  "forest cfg [] = []"
| "forest cfg (lv # lvs) = attach cfg lv (forest cfg lvs)"

text \<open>
  \<open>enough cfg n lvs\<close>: the first \<open>n\<close> symbols of the first level exist, and so do all the
  symbols their subtrees ask for further down. With no level left nothing is asked for:
  the nodes of the last level are leaves.
\<close>

fun enough :: "config \<Rightarrow> nat \<Rightarrow> string list \<Rightarrow> bool" where
  "enough cfg n [] = True"
| "enough cfg n (lv # lvs) = (n \<le> length lv \<and> enough cfg (sum_args cfg (take n lv)) lvs)"

text \<open>What is left of the levels once the first \<open>n\<close> symbols and their subtrees are used.\<close>

fun trim :: "config \<Rightarrow> nat \<Rightarrow> string list \<Rightarrow> string list" where
  "trim cfg n [] = []"
| "trim cfg n (lv # lvs) = drop n lv # trim cfg (sum_args cfg (take n lv)) lvs"

text \<open>
  The levels as the specification words them, without the decoder's loop: level 0 is the
  first character; a level after \<open>prev\<close> is the next \<open>sum_args cfg prev\<close> characters of what
  is left of the gene; no further level is produced once a level's total arity is zero
  or the gene is exhausted.
\<close>

function spec_levels :: "config \<Rightarrow> string \<Rightarrow> string \<Rightarrow> string list" where
  "spec_levels cfg prev rest =
     (if sum_args cfg prev = 0 \<or> rest = [] then [prev]
      else prev # spec_levels cfg (take (sum_args cfg prev) rest)
                    (drop (sum_args cfg prev) rest))"
  by pat_completeness auto
termination
  by (relation "measure (\<lambda>(cfg, prev, rest). length rest)") auto

definition gene_levels :: "config \<Rightarrow> string \<Rightarrow> string list" where
  "gene_levels cfg gene = (case gene of [] \<Rightarrow> [] | c # g \<Rightarrow> spec_levels cfg [c] g)"

text \<open>
  A gene is complete when every level holds exactly as many symbols as the level above
  asks for, and the last level asks for none.
\<close>

fun full :: "config \<Rightarrow> string list \<Rightarrow> bool" where
  "full cfg [] = False"
| "full cfg [lv] = (sum_args cfg lv = 0)"
| "full cfg (lv # m # ls) = (length m = sum_args cfg lv \<and> full cfg (m # ls))"

text \<open>Every node of a tree has exactly as many children as its symbol's arity.\<close>

fun arity_ok :: "config \<Rightarrow> tree \<Rightarrow> bool" where
  "arity_ok cfg (Node nm kids) = (length kids = args cfg nm \<and> list_all (arity_ok cfg) kids)"

text \<open>The levels that the \<^verbatim>\<open>while\<close> loop of \<^verbatim>\<open>build_tree\<close> cuts a gene into.\<close>

definition levels_of :: "config \<Rightarrow> string \<Rightarrow> string list" where
  "levels_of cfg gene = build_levels cfg gene [[hd gene]] 0"

text \<open>
  What the \<^verbatim>\<open>for\<close> loop of \<^verbatim>\<open>grab_children\<close> amounts to from iteration \<open>i\<close> on, when
  the levels are \<open>pre @ lv # M\<close> and the loop reads level \<open>lv\<close>.
\<close>

definition grab_for_spec ::
  "config \<Rightarrow> nat \<Rightarrow> nat \<Rightarrow> tree list \<Rightarrow> string list \<Rightarrow> string \<Rightarrow> string list
     \<Rightarrow> error + (tree list \<times> string list)" where
  "grab_for_spec cfg i n kids pre lv M =
     (if (i < n \<longrightarrow> n \<le> length lv) \<and> enough cfg (sum_args cfg (take (n - i) (drop i lv))) M
      then Inr (kids @ attach cfg (take (n - i) (drop i lv)) (forest cfg M),
                pre @ lv # trim cfg (sum_args cfg (take (n - i) (drop i lv))) M)
      else Inl IndexError)"

declare grab_children.simps [simp del] grab_for.simps [simp del] build_levels.simps [simp del]

declare spec_levels.simps [simp del]


subsection \<open>link\<close>

text \<open>
  The inner \<^verbatim>\<open>link_recursive(*args)\<close>. It need not return (Python gives up with a
  RecursionError), so it is a partial function and \<open>None\<close> stands for not returning. The
  node \<^verbatim>\<open>root\<close> made at the top of every call is used only in the first branch.
\<close>

partial_function (option) link_recursive :: "symbol \<Rightarrow> nat \<Rightarrow> tree list \<Rightarrow> tree option" where
  "link_recursive lf nargs trs =
     (if length trs = nargs then Some (Node lf trs)
      else Option.bind (link_recursive lf nargs (take nargs trs))
             (\<lambda>t. link_recursive lf nargs (t # drop nargs trs)))"

text \<open>
  \<^verbatim>\<open>link(*args)\<close>: ValueError when the linking function is not a key of \<^verbatim>\<open>functions\<close>
  (\<^verbatim>\<open>None\<close> never is). The \<^verbatim>\<open>isinstance\<close> test holds by typing: every argument is a tree.
\<close>

definition link :: "config \<Rightarrow> tree list \<Rightarrow> (error + tree) option" where
  "link cfg trs =
     (case linking_function cfg of
        None \<Rightarrow> Some (Inl ValueError)
      | Some lf \<Rightarrow>
         (case functions' cfg lf of
            None \<Rightarrow> Some (Inl ValueError)
          | Some e \<Rightarrow> map_option Inr (link_recursive lf (f_args e) trs)))"

subsection \<open>Chromosome instances\<close>

text \<open>
  The key of the evaluation cache: \<^verbatim>\<open>tuple(sorted(terminal_values.items()))\<close>. A dict has
  distinct keys, so sorting the pairs is sorting by key.
\<close>

type_synonym fingerprint = "(symbol \<times> pyval) list"

definition value_fingerprint :: "bindings \<Rightarrow> fingerprint" where
  "value_fingerprint terminal_values = sort_key fst terminal_values"

record chromosome =
  genes :: "string list"
  trees :: "tree list"
  values' :: "fingerprint \<rightharpoonup> pyval"
  fitness' :: "num option"
  ephemeral_random_constants :: "real list"

text \<open>
  \<^verbatim>\<open>__init__(genes)\<close>. \<open>uniform lo hi n\<close> stands for the draw
  \<^verbatim>\<open>np.random.uniform(lo, hi, size=n)\<close>; unpacking a range that is \<^verbatim>\<open>None\<close> is a TypeError
  and a negative size a ValueError.
\<close>

definition init ::
  "config \<Rightarrow> (real \<Rightarrow> real \<Rightarrow> nat \<Rightarrow> real list) \<Rightarrow> string list \<Rightarrow> error + chromosome" where
  "init cfg uniform gs =
     (if functions' cfg = Map.empty then Inl ValueError
      else if length (terminals cfg) = 0 then Inl ValueError
      else if chrom_length cfg = None then Inl ValueError
      else if head_length cfg = None then Inl ValueError
      else if linking_function cfg = None \<and> length gs > 1 then Inl ValueError
      else if int (length gs) \<noteq> num_genes cfg then Inl ValueError
      else if ''?'' \<in> set (terminals cfg) \<and> ephemeral_random_constants_range cfg = None
        then Inl ValueError
      else case ephemeral_random_constants_range cfg of
             None \<Rightarrow> Inl TypeError
           | Some (lo, hi) \<Rightarrow>
               (case chrom_length cfg of
                  None \<Rightarrow> Inl TypeError
                | Some n \<Rightarrow>
                    if n < 0 then Inl ValueError
                    else Inr \<lparr> genes = gs, trees = [], values' = Map.empty, fitness' = None,
                               ephemeral_random_constants = uniform lo hi (nat n) \<rparr>))"

subsection \<open>evaluate\<close>

text \<open>\<^verbatim>\<open>str.isdigit()\<close> and \<^verbatim>\<open>int(str)\<close> on the decimal digits.\<close>

definition isdigit :: "string \<Rightarrow> bool" where
  "isdigit s = (s \<noteq> [] \<and> list_all (\<lambda>c. 48 \<le> (of_char c :: nat) \<and> (of_char c :: nat) \<le> 57) s)"

definition py_int :: "string \<Rightarrow> int" where
  "py_int s = foldl (\<lambda>a c. 10 * a + (int (of_char c) - 48)) 0 s"

text \<open>
  The closure \<^verbatim>\<open>inorder(start)\<close>; the nonlocal \<^verbatim>\<open>erc_index\<close> is threaded through. The
  list comprehension over the children is \<open>inorder_list\<close>, left to right. A node whose
  name is neither a terminal nor a function falls off the end and yields \<^verbatim>\<open>None\<close>.
\<close>

fun inorder :: "config \<Rightarrow> real list \<Rightarrow> bindings \<Rightarrow> tree \<Rightarrow> nat \<Rightarrow> error + (pyval \<times> nat)"
and inorder_list ::
  "config \<Rightarrow> real list \<Rightarrow> bindings \<Rightarrow> tree list \<Rightarrow> nat \<Rightarrow> error + (pyval list \<times> nat)"
where
  "inorder cfg erc terminal_values (Node nm kids) erc_index =
     (if nm \<in> set (terminals cfg) then
        (if nm = ''?'' then
           (case py_index erc erc_index of
              Inl e \<Rightarrow> Inl e
            | Inr r \<Rightarrow> Inr (Num (Fin r), erc_index + 1))
         else
           (case constants cfg nm of
              Some v \<Rightarrow> Inr (v, erc_index)
            | None \<Rightarrow>
                if isdigit nm then Inr (Num (Fin (of_int (py_int nm))), erc_index)
                else (case map_of terminal_values nm of
                        Some v \<Rightarrow> Inr (v, erc_index)
                      | None \<Rightarrow> Inl KeyError)))
      else
        (case functions' cfg nm of
           Some fe \<Rightarrow>
             (case inorder_list cfg erc terminal_values kids erc_index of
                Inl e \<Rightarrow> Inl e
              | Inr (vs, j) \<Rightarrow>
                  (case f_call fe vs of Inl e \<Rightarrow> Inl e | Inr v \<Rightarrow> Inr (v, j)))
         | None \<Rightarrow> Inr (PyNone, erc_index)))"
| "inorder_list cfg erc terminal_values [] erc_index = Inr ([], erc_index)"
| "inorder_list cfg erc terminal_values (t # ts) erc_index =
     (case inorder cfg erc terminal_values t erc_index of
        Inl e \<Rightarrow> Inl e
      | Inr (v, j) \<Rightarrow>
          (case inorder_list cfg erc terminal_values ts j of
             Inl e \<Rightarrow> Inl e
           | Inr (vs, k) \<Rightarrow> Inr (v # vs, k)))"

text \<open>\<^verbatim>\<open>[Chromosome.build_tree(gene) for gene in self.genes]\<close>\<close>

fun build_trees :: "config \<Rightarrow> string list \<Rightarrow> error + tree list" where
  "build_trees cfg [] = Inr []"
| "build_trees cfg (g # gs) =
     (case build_tree cfg g of
        Inl e \<Rightarrow> Inl e
      | Inr t \<Rightarrow> (case build_trees cfg gs of Inl e \<Rightarrow> Inl e | Inr ts \<Rightarrow> Inr (t # ts)))"

fun is_complex :: "pyval \<Rightarrow> bool" where
  "is_complex (Cplx z) = True"
| "is_complex v = False"

text \<open>
  \<^verbatim>\<open>evaluate(terminal_values)\<close>. The result pairs what the call returns or raises with the
  chromosome as the call leaves it; \<open>None\<close> is a call that does not return.
\<close>

definition evaluate ::
  "config \<Rightarrow> chromosome \<Rightarrow> bindings \<Rightarrow> ((error + pyval) \<times> chromosome) option" where
  "evaluate cfg ch terminal_values =
     (let value_fingerprint = value_fingerprint terminal_values in
      case values' ch value_fingerprint of
        Some v \<Rightarrow> Some (Inr v, ch)
      | None \<Rightarrow>
         (case (if length (trees ch) = 0 then build_trees cfg (genes ch) else Inr (trees ch)) of
            Inl e \<Rightarrow> Some (Inl e, ch)
          | Inr ts \<Rightarrow>
             (let ch1 = ch\<lparr>trees := ts\<rparr> in
              case (if num_genes cfg > 1 then link cfg ts else Some (py_index ts 0)) of
                None \<Rightarrow> None
              | Some (Inl e) \<Rightarrow> Some (Inl e, ch1)
              | Some (Inr expression_tree) \<Rightarrow>
                 (case inorder cfg (ephemeral_random_constants ch) terminal_values
                         expression_tree 0 of
                    Inr (v, j) \<Rightarrow>
                      (if is_complex v
                       then Some (Inr (Num NaN),
                                  ch1\<lparr>values' := (values' ch)(value_fingerprint \<mapsto> Num NaN)\<rparr>)
                       else Some (Inr v, ch1\<lparr>values' := (values' ch)(value_fingerprint \<mapsto> v)\<rparr>))
                  | Inl e \<Rightarrow>
                      (if e = ZeroDivisionError \<or> e = TypeError
                       then Some (Inr (Num NaN),
                                  ch1\<lparr>values' := (values' ch)(value_fingerprint \<mapsto> Num NaN)\<rparr>)
                       else Some (Inl e, ch1))))))"

subsection \<open>The fitness getter\<close>

text \<open>\<^verbatim>\<open>fitness()\<close> returns a value and the warnings it issued.\<close>

definition fitness :: "chromosome \<Rightarrow> num \<times> string list" where
  "fitness ch =
     (case fitness' ch of
        Some v \<Rightarrow> (v, [])
      | None \<Rightarrow> (Fin 0, [''Fitness of chromosome has not been properly calculated. Returning 0.'']))"

subsection \<open>Arithmetic of the scorers\<close>

fun num_neg :: "num \<Rightarrow> num" where
  "num_neg (Fin a) = Fin (- a)"
| "num_neg PInf = NInf"
| "num_neg NInf = PInf"
| "num_neg NaN = NaN"

fun num_add :: "num \<Rightarrow> num \<Rightarrow> num" where
  "num_add (Fin a) (Fin b) = Fin (a + b)"
| "num_add NaN y = NaN"
| "num_add x NaN = NaN"
| "num_add PInf NInf = NaN"
| "num_add NInf PInf = NaN"
| "num_add PInf y = PInf"
| "num_add x PInf = PInf"
| "num_add NInf y = NInf"
| "num_add x NInf = NInf"

definition num_sub :: "num \<Rightarrow> num \<Rightarrow> num" where
  "num_sub x y = num_add x (num_neg y)"

fun num_abs :: "num \<Rightarrow> num" where
  "num_abs (Fin a) = Fin \<bar>a\<bar>"
| "num_abs PInf = PInf"
| "num_abs NInf = PInf"
| "num_abs NaN = NaN"

text \<open>\<^verbatim>\<open>x**2\<close>\<close>

fun num_sq :: "num \<Rightarrow> num" where
  "num_sq (Fin a) = Fin (a * a)"
| "num_sq PInf = PInf"
| "num_sq NInf = PInf"
| "num_sq NaN = NaN"

text \<open>\<^verbatim>\<open>1.0/x\<close>, with Python's ZeroDivisionError.\<close>

fun num_recip :: "num \<Rightarrow> error + num" where
  "num_recip (Fin a) = (if a = 0 then Inl ZeroDivisionError else Inr (Fin (1 / a)))"
| "num_recip PInf = Inr (Fin 0)"
| "num_recip NInf = Inr (Fin 0)"
| "num_recip NaN = Inr NaN"

text \<open>
  \<^verbatim>\<open>type(C) == np.complex or np.isnan(C) or np.isinf(C) or np.isneginf(C)\<close>; numpy raises a
  TypeError on \<^verbatim>\<open>None\<close>.
\<close>

fun bad_value :: "pyval \<Rightarrow> error + bool" where
  "bad_value (Cplx z) = Inr True"
| "bad_value PyNone = Inl TypeError"
| "bad_value (Num (Fin a)) = Inr False"
| "bad_value (Num x) = Inr True"

subsection \<open>absolute_fitness\<close>

text \<open>
  The loop over the fitness cases for one chromosome; \<open>fit\<close> is the variable
  \<^verbatim>\<open>fitness\<close>. The result is the value of \<^verbatim>\<open>fitness\<close> after the loop, or the exception.
\<close>

fun abs_cases ::
  "config \<Rightarrow> num \<Rightarrow> chromosome \<Rightarrow> (bindings \<times> num) list \<Rightarrow> num
     \<Rightarrow> ((error + num) \<times> chromosome) option" where
  "abs_cases cfg M ch [] fit = Some (Inr fit, ch)"
| "abs_cases cfg M ch ((b, T) # cs) fit =
     (case evaluate cfg ch b of
        None \<Rightarrow> None
      | Some (Inl e, ch') \<Rightarrow> Some (Inl e, ch')
      | Some (Inr C, ch') \<Rightarrow>
         (case bad_value C of
            Inl e \<Rightarrow> Some (Inl e, ch')
          | Inr True \<Rightarrow> Some (Inr (Fin 0), ch')
          | Inr False \<Rightarrow>
             (case C of
                Num c \<Rightarrow> abs_cases cfg M ch' cs (num_add fit (num_sub M (num_abs (num_sub c T))))
              | _ \<Rightarrow> Some (Inl TypeError, ch'))))"

text \<open>The body of the loop over the chromosomes, for one of them.\<close>

definition absolute_fitness_one ::
  "config \<Rightarrow> num \<Rightarrow> chromosome \<Rightarrow> ((error + num) \<times> chromosome) option" where
  "absolute_fitness_one cfg M ch =
     (case fitness' ch of
        Some v \<Rightarrow> Some (Inr v, ch)
      | None \<Rightarrow>
         (case abs_cases cfg M ch (fitness_cases cfg) (Fin 0) of
            None \<Rightarrow> None
          | Some (Inl e, ch') \<Rightarrow> Some (Inl e, ch')
          | Some (Inr fit, ch') \<Rightarrow> Some (Inr fit, ch'\<lparr>fitness' := Some fit\<rparr>)))"

text \<open>
  \<^verbatim>\<open>absolute_fitness(M, *args)\<close> on distinct chromosome objects: the list of fitnesses and
  the chromosomes as left behind.
\<close>

fun absolute_fitness ::
  "config \<Rightarrow> num \<Rightarrow> chromosome list \<Rightarrow> ((error + num list) \<times> chromosome list) option" where
  "absolute_fitness cfg M [] = Some (Inr [], [])"
| "absolute_fitness cfg M (ch # chs) =
     (case absolute_fitness_one cfg M ch of
        None \<Rightarrow> None
      | Some (Inl e, ch') \<Rightarrow> Some (Inl e, ch' # chs)
      | Some (Inr v, ch') \<Rightarrow>
         (case absolute_fitness cfg M chs of
            None \<Rightarrow> None
          | Some (Inl e, chs') \<Rightarrow> Some (Inl e, ch' # chs')
          | Some (Inr vs, chs') \<Rightarrow> Some (Inr (v # vs), ch' # chs')))"

subsection \<open>inv_squared_error\<close>

fun ise_cases ::
  "config \<Rightarrow> chromosome \<Rightarrow> (bindings \<times> num) list \<Rightarrow> num
     \<Rightarrow> ((error + num) \<times> chromosome) option" where
  "ise_cases cfg ch [] fit = Some (Inr fit, ch)"
| "ise_cases cfg ch ((b, T) # cs) fit =
     (case evaluate cfg ch b of
        None \<Rightarrow> None
      | Some (Inl e, ch') \<Rightarrow> Some (Inl e, ch')
      | Some (Inr C, ch') \<Rightarrow>
         (case bad_value C of
            Inl e \<Rightarrow> Some (Inl e, ch')
          | Inr True \<Rightarrow> Some (Inr PInf, ch')
          | Inr False \<Rightarrow>
             (case C of
                Num c \<Rightarrow> ise_cases cfg ch' cs (num_add fit (num_sq (num_sub c T)))
              | _ \<Rightarrow> Some (Inl TypeError, ch'))))"

definition inv_squared_error_one ::
  "config \<Rightarrow> chromosome \<Rightarrow> ((error + num) \<times> chromosome) option" where
  "inv_squared_error_one cfg ch =
     (case fitness' ch of
        Some v \<Rightarrow> Some (Inr v, ch)
      | None \<Rightarrow>
         (case ise_cases cfg ch (fitness_cases cfg) (Fin 0) of
            None \<Rightarrow> None
          | Some (Inl e, ch') \<Rightarrow> Some (Inl e, ch')
          | Some (Inr fit, ch') \<Rightarrow>
             (case num_recip (num_add (Fin 1) fit) of
                Inl e \<Rightarrow> Some (Inl e, ch')
              | Inr v \<Rightarrow> Some (Inr v, ch'\<lparr>fitness' := Some v\<rparr>))))"


subsection \<open>Reference notions for the scorers and the ephemeral constants\<close>

text \<open>
  The values a chromosome evaluates to on a list of bindings, one call of \<open>evaluate\<close>
  after the other on the same chromosome, up to the first call that raises.
\<close>

fun evaluate_cases ::
  "config \<Rightarrow> chromosome \<Rightarrow> bindings list \<Rightarrow> ((error + pyval list) \<times> chromosome) option" where
  "evaluate_cases cfg ch [] = Some (Inr [], ch)"
| "evaluate_cases cfg ch (b # bs) =
     (case evaluate cfg ch b of
        None \<Rightarrow> None
      | Some (Inl e, ch') \<Rightarrow> Some (Inl e, ch')
      | Some (Inr v, ch') \<Rightarrow>
         (case evaluate_cases cfg ch' bs of
            None \<Rightarrow> None
          | Some (Inl e, ch'') \<Rightarrow> Some (Inl e, ch'')
          | Some (Inr vs, ch'') \<Rightarrow> Some (Inr (v # vs), ch'')))"

text \<open>The number of \<open>?\<close> terminals that the walk of \<open>inorder\<close> meets in a tree.\<close>

fun qmarks :: "config \<Rightarrow> tree \<Rightarrow> nat"
and qmarks_list :: "config \<Rightarrow> tree list \<Rightarrow> nat" where
  "qmarks cfg (Node nm kids) =
     (if nm \<in> set (terminals cfg) then (if nm = ''?'' then 1 else 0)
      else (case functions' cfg nm of Some fe \<Rightarrow> qmarks_list cfg kids | None \<Rightarrow> 0))"
| "qmarks_list cfg [] = 0"
| "qmarks_list cfg (t # ts) = qmarks cfg t + qmarks_list cfg ts"

subsection \<open>Example registrations\<close>

text \<open>
  The repository registers no function of its own. These callables stand for
  \<^verbatim>\<open>lambda a, b: a + b\<close>, \<^verbatim>\<open>lambda a, b: a / b\<close>, \<^verbatim>\<open>lambda a: a ** 0.5\<close> (complex on a
  negative argument) and \<^verbatim>\<open>math.exp\<close> (OverflowError on a large argument), on finite
  arguments; they are used for concrete runs only.
\<close>

fun plus_f :: "pyval list \<Rightarrow> error + pyval" where
  "plus_f [Num a, Num b] = Inr (Num (num_add a b))"
| "plus_f vs = Inl TypeError"

fun div_f :: "pyval list \<Rightarrow> error + pyval" where
  "div_f [Num (Fin a), Num (Fin b)] =
     (if b = 0 then Inl ZeroDivisionError else Inr (Num (Fin (a / b))))"
| "div_f vs = Inl TypeError"

fun sqrt_f :: "pyval list \<Rightarrow> error + pyval" where
  "sqrt_f [Num (Fin a)] =
     (if a < 0 then Inr (Cplx (Complex 0 (sqrt (- a)))) else Inr (Num (Fin (sqrt a))))"
| "sqrt_f vs = Inl TypeError"

fun exp_f :: "pyval list \<Rightarrow> error + pyval" where
  "exp_f [Num (Fin a)] = (if a > 709 then Inl OverflowError else Inr (Num (Fin (exp a))))"
| "exp_f vs = Inl TypeError"

definition example_config :: config where
  "example_config =
     \<lparr> functions' = [''+'' \<mapsto> \<lparr>f_args = 2, f_call = plus_f\<rparr>,
                      ''/'' \<mapsto> \<lparr>f_args = 2, f_call = div_f\<rparr>,
                      ''Q'' \<mapsto> \<lparr>f_args = 1, f_call = sqrt_f\<rparr>,
                      ''E'' \<mapsto> \<lparr>f_args = 1, f_call = exp_f\<rparr>],
       terminals = [''a'', ''b'', ''x'', ''?'', ''0'', ''2''],
       constants = Map.empty,
       ephemeral_random_constants_range = Some (-1, 1),
       linking_function = Some ''+'',
       num_genes = 1,
       head_length = Some 1,
       chrom_length = Some 3,
       fitness_cases = [([(''x'', Num (Fin 2))], Fin 4)] \<rparr>"

text \<open>A fresh single-gene chromosome with three ephemeral constants, for concrete runs.\<close>

definition example_chromosome :: "string list \<Rightarrow> chromosome" where
  "example_chromosome gs =
     \<lparr> genes = gs, trees = [], values' = Map.empty, fitness' = None,
       ephemeral_random_constants = [1/2, 1/4, 1/8] \<rparr>"

section \<open>Properties\<close>

subsection \<open>Decoding is breadth-first\<close>


lemma sum_args_append: "sum_args cfg (a @ b) = sum_args cfg a + sum_args cfg b"
  by (simp add: sum_args_def)

lemma sum_args_take_add:
  "sum_args cfg (take (a + b) m) = sum_args cfg (take a m) + sum_args cfg (take b (drop a m))"
  by (simp add: take_add sum_args_append)

lemma take_attach: "take k (attach cfg m F) = attach cfg (take k m) F"
  by (induction m arbitrary: k F) (auto simp: take_Cons split: nat.splits)

lemma drop_attach:
  "drop k (attach cfg m F) = attach cfg (drop k m) (drop (sum_args cfg (take k m)) F)"
proof (induction m arbitrary: k F)
  case Nil
  then show ?case by simp
next
  case (Cons c m)
  show ?case
  proof (cases k)
    case 0
    then show ?thesis by (simp add: sum_args_def)
  next
    case (Suc j)
    then show ?thesis using Cons[of j "drop (args cfg [c]) F"]
      by (simp add: sum_args_def add.commute)
  qed
qed

lemma forest_trim: "forest cfg (trim cfg k M) = drop k (forest cfg M)"
  by (induction M arbitrary: k) (simp_all add: drop_attach)

lemma trim_0: "trim cfg 0 M = M"
  by (induction M) (simp_all add: sum_args_def)

lemma trim_trim: "trim cfg b (trim cfg a M) = trim cfg (a + b) M"
proof (induction M arbitrary: a b)
  case Nil
  then show ?case by simp
next
  case (Cons m M)
  have "drop b (drop a m) = drop (a + b) m" by (simp add: add.commute)
  moreover have "trim cfg (sum_args cfg (take b (drop a m))) (trim cfg (sum_args cfg (take a m)) M)
     = trim cfg (sum_args cfg (take (a + b) m)) M"
    unfolding Cons sum_args_take_add ..
  ultimately show ?case by simp
qed

lemma enough_0: "enough cfg 0 M"
  by (induction M) (simp_all add: sum_args_def)

lemma enough_add: "enough cfg (a + b) M \<longleftrightarrow> enough cfg a M \<and> enough cfg b (trim cfg a M)"
proof (induction M arbitrary: a b)
  case Nil
  then show ?case by simp
next
  case (Cons m M)
  show ?case
    unfolding enough.simps trim.simps sum_args_take_add Cons by auto
qed


lemma length_trim: "length (trim cfg k M) = length M"
  by (induction M arbitrary: k) simp_all

lemma take_drop_step:
  "i < n \<Longrightarrow> i < length lv \<Longrightarrow>
     take (n - i) (drop i lv) = lv ! i # take (n - Suc i) (drop (Suc i) lv)"
  by (metis Cons_nth_drop_Suc Suc_diff_Suc take_Suc_Cons)

lemma grab_for_done:
  "\<not> i < n \<Longrightarrow> grab_for cfg cl i n kids levels = Inr (kids, levels)"
  by (simp add: grab_for.simps)

lemma grab_for_short:
  "i < n \<Longrightarrow> \<not> i < length lv \<Longrightarrow>
     grab_for cfg (length pre) i n kids (pre @ lv # M) = Inl IndexError"
  by (simp add: grab_for.simps py_index_def)

lemma grab_for_step:
  "i < n \<Longrightarrow> i < length lv \<Longrightarrow>
     grab_for cfg (length pre) i n kids (pre @ lv # M) =
       (case grab_children cfg [lv ! i] (Suc (length pre)) (pre @ lv # M) of
          Inl e \<Rightarrow> Inl e
        | Inr (sub, levels') \<Rightarrow>
            grab_for cfg (length pre) (Suc i) n (kids @ [Node [lv ! i] sub])
              (if length pre < length levels' - 1
               then levels'[Suc (length pre) :=
                      drop (args cfg [lv ! i]) (levels' ! Suc (length pre))]
               else levels'))"
  by (subst grab_for.simps) (auto simp: py_index_def split: sum.splits prod.splits)

lemma grab_for_spec_done:
  "\<not> i < n \<Longrightarrow> grab_for_spec cfg i n kids pre lv M = Inr (kids, pre @ lv # M)"
  by (simp add: grab_for_spec_def enough_0 trim_0 sum_args_def)

lemma grab_for_spec_short:
  "i < n \<Longrightarrow> \<not> i < length lv \<Longrightarrow> grab_for_spec cfg i n kids pre lv M = Inl IndexError"
  by (simp add: grab_for_spec_def)

lemma grab_for_spec_step:
  assumes "i < n" "i < length lv"
  shows "grab_for_spec cfg i n kids pre lv M =
     (if enough cfg (args cfg [lv ! i]) M
      then grab_for_spec cfg (Suc i) n
             (kids @ [Node [lv ! i] (take (args cfg [lv ! i]) (forest cfg M))]) pre lv
             (trim cfg (args cfg [lv ! i]) M)
      else Inl IndexError)"
proof -
  let ?a = "args cfg [lv ! i]"
  let ?s = "sum_args cfg (take (n - Suc i) (drop (Suc i) lv))"
  have s: "sum_args cfg (take (n - i) (drop i lv)) = ?a + ?s"
    by (simp add: take_drop_step[OF assms] sum_args_def)
  have c: "(Suc i < n \<longrightarrow> n \<le> length lv) \<longleftrightarrow> n \<le> length lv"
    using assms by auto
  show ?thesis
    unfolding grab_for_spec_def s enough_add trim_trim[symmetric] forest_trim c
    using assms by (simp add: take_drop_step[OF assms])
qed


lemma grab_children_leaf:
  "grab_children cfg p (Suc (length pre)) (pre @ [lv]) = Inr ([], pre @ [lv])"
  by (simp add: grab_children.simps)

lemma grab_children_inner:
  "grab_children cfg p (Suc (length pre)) (pre @ lv # m # M) =
     grab_for cfg (length (pre @ [lv])) 0 (args cfg p) [] ((pre @ [lv]) @ m # M)"
  by (simp add: grab_children.simps)

lemma grab_for_spec_0:
  "grab_for_spec cfg 0 a [] pre m M =
     (if enough cfg a (m # M)
      then Inr (take a (forest cfg (m # M)), pre @ m # trim cfg (sum_args cfg (take a m)) M)
      else Inl IndexError)"
  by (auto simp: grab_for_spec_def take_attach)

lemma update_below:
  "(pre @ lv # m # T)[Suc (length pre) := x] = pre @ lv # x # T"
  by (simp add: list_update_append)

lemma grab_for_char_aux:
  "length M = d \<Longrightarrow> n - i = k \<Longrightarrow>
     grab_for cfg (length pre) i n kids (pre @ lv # M) = grab_for_spec cfg i n kids pre lv M"
proof (induction d arbitrary: M n i k kids pre lv)
  case 0
  then have M: "M = []" by simp
  from 0(2) show ?case unfolding M
  proof (induction k arbitrary: i kids)
    case 0
    then have "\<not> i < n" by simp
    then show ?case by (simp add: grab_for_done grab_for_spec_done)
  next
    case (Suc k)
    then have lt: "i < n" and k: "n - Suc i = k" by simp_all
    show ?case
    proof (cases "i < length lv")
      case False
      with lt show ?thesis by (simp add: grab_for_short grab_for_spec_short)
    next
      case True
      show ?thesis
        unfolding grab_for_step[OF lt True] grab_for_spec_step[OF lt True] grab_children_leaf
        using Suc.IH[OF k] by simp
    qed
  qed
next
  case (Suc d)
  then obtain m M' where M: "M = m # M'" and d: "length M' = d"
    by (cases M) simp_all
  have outer: "\<And>pre' m' M'' a. length M'' = d \<Longrightarrow>
      grab_for cfg (length pre') 0 a [] (pre' @ m' # M'') = grab_for_spec cfg 0 a [] pre' m' M''"
    by (rule Suc.IH[OF _ refl])
  from Suc.prems(2) Suc.prems(1) show ?case
  proof (induction k arbitrary: i kids M)
    case 0
    then have "\<not> i < n" by simp
    then show ?case by (simp add: grab_for_done grab_for_spec_done)
  next
    case (Suc k)
    then have lt: "i < n" and k: "n - Suc i = k" by simp_all
    obtain m M' where M: "M = m # M'" and d: "length M' = d"
      using Suc.prems(2) by (cases M) simp_all
    show ?case
    proof (cases "i < length lv")
      case False
      with lt show ?thesis by (simp add: grab_for_short grab_for_spec_short)
    next
      case True
      let ?a = "args cfg [lv ! i]"
      have child: "grab_children cfg [lv ! i] (Suc (length pre)) (pre @ lv # m # M') =
          grab_for_spec cfg 0 ?a [] (pre @ [lv]) m M'"
        unfolding grab_children_inner
        by (rule outer[OF d])
      have next_step: "\<And>kids'. grab_for cfg (length pre) (Suc i) n kids' (pre @ lv # trim cfg ?a M)
          = grab_for_spec cfg (Suc i) n kids' pre lv (trim cfg ?a M)"
        by (rule Suc.IH[OF k]) (simp_all add: length_trim Suc.prems)
      show ?thesis
        unfolding grab_for_step[OF lt True] grab_for_spec_step[OF lt True]
        unfolding M child grab_for_spec_0
        using next_step unfolding M
        by (simp add: nth_append update_below)
    qed
  qed
qed


lemma grab_for_char:
  "grab_for cfg (length pre) i n kids (pre @ lv # M) = grab_for_spec cfg i n kids pre lv M"
  by (rule grab_for_char_aux[OF refl refl])

lemma build_levels_prefix: "take (length levels) (build_levels cfg gene levels index) = levels"
proof (induction cfg gene levels index rule: build_levels.induct)
  case (1 cfg gene levels index)
  show ?case
  proof (cases "index < length gene \<and> sum_args cfg (last levels) \<noteq> 0")
    case False
    then show ?thesis by (subst build_levels.simps) auto
  next
    case True
    let ?l = "levels @ [py_slice gene (index + 1) (index + 1 + sum_args cfg (last levels))]"
    let ?r = "build_levels cfg gene ?l (index + sum_args cfg (last levels))"
    have "take (length ?l) ?r = ?l" using 1[OF True refl] .
    then have "take (length levels) (take (length ?l) ?r) = take (length levels) ?l" by simp
    then have "take (length levels) ?r = levels" by (simp add: min_def)
    then show ?thesis using True by (subst build_levels.simps) (simp add: Let_def)
  qed
qed

lemma levels_of_Cons: "\<exists>M. levels_of cfg (c # g) = [c] # M"
proof -
  have "take (length [[c]]) (levels_of cfg (c # g)) = [[c]]"
    unfolding levels_of_def list.sel by (rule build_levels_prefix)
  then show ?thesis by (cases "levels_of cfg (c # g)") simp_all
qed

lemma grab_children_root:
  "grab_children cfg [c] (Suc 0) ([c] # M) =
     (if enough cfg (args cfg [c]) M
      then Inr (take (args cfg [c]) (forest cfg M),
                [c] # (case M of [] \<Rightarrow> [] | m # M' \<Rightarrow> m # trim cfg (sum_args cfg (take (args cfg [c]) m)) M'))
      else Inl IndexError)"
proof (cases M)
  case Nil
  then show ?thesis using grab_children_leaf[of cfg "[c]" "[]" "[c]"] by simp
next
  case (Cons m M')
  show ?thesis
    using grab_children_inner[of cfg "[c]" "[]" "[c]" m M']
      grab_for_char[of cfg "[[c]]" 0 "args cfg [c]" "[]" m M']
    unfolding Cons by (simp add: grab_for_spec_0 del: enough.simps forest.simps)
qed

lemma build_tree_char:
  "build_tree cfg gene =
     (if gene \<noteq> [] \<and> enough cfg 1 (levels_of cfg gene)
      then Inr (hd (forest cfg (levels_of cfg gene)))
      else Inl IndexError)"
proof (cases gene)
  case Nil
  then show ?thesis by (simp add: build_tree_def py_index_def)
next
  case (Cons c g)
  obtain M where M: "levels_of cfg (c # g) = [c] # M"
    using levels_of_Cons by blast
  then have M': "build_levels cfg (c # g) [[c]] 0 = [c] # M"
    by (simp add: levels_of_def)
  show ?thesis
    unfolding Cons build_tree_def
    by (simp add: py_index_def M M' grab_children_root sum_args_def
          del: enough.simps forest.simps)
      (simp add: sum_args_def)
qed

subsection \<open>The decoder against the levels of the specification\<close>


lemma build_levels_stop:
  "\<not> (index < length G \<and> sum_args cfg (last levels) \<noteq> 0) \<Longrightarrow>
     build_levels cfg G levels index = levels"
  by (subst build_levels.simps) auto

lemma build_levels_go:
  "index < length G \<Longrightarrow> sum_args cfg (last levels) \<noteq> 0 \<Longrightarrow>
     build_levels cfg G levels index =
       build_levels cfg G (levels @ [take (sum_args cfg (last levels)) (drop (Suc index) G)])
         (index + sum_args cfg (last levels))"
  by (subst build_levels.simps) (simp add: py_slice_def Let_def)

lemma build_levels_append: "\<exists>X. build_levels cfg G levels index = levels @ X"
  by (metis append_take_drop_id build_levels_prefix)

lemma spec_levels_Cons: "\<exists>Y. spec_levels cfg prev rest = prev # Y"
  by (subst spec_levels.simps) simp

lemma spec_levels_Nil: "spec_levels cfg prev [] = [prev]"
  by (subst spec_levels.simps) simp

lemma full_Cons2: "full cfg (lv # m # ls) = (length m = sum_args cfg lv \<and> full cfg (m # ls))"
  by simp

lemma levels_agree:
  "levels \<noteq> [] \<Longrightarrow> index < length G \<Longrightarrow>
     build_levels cfg G levels index = butlast levels @ R \<Longrightarrow>
     full cfg R \<or> full cfg (spec_levels cfg (last levels) (drop (Suc index) G)) \<Longrightarrow>
     R = spec_levels cfg (last levels) (drop (Suc index) G)"
proof (induction cfg G levels index arbitrary: R rule: build_levels.induct)
  case (1 cfg G levels index)
  let ?prev = "last levels"
  let ?rest = "drop (Suc index) G"
  let ?n = "sum_args cfg ?prev"
  have lv: "levels = butlast levels @ [?prev]" using 1(2) by simp
  show ?case
  proof (cases "?n = 0")
    case True
    then have "build_levels cfg G levels index = levels" by (simp add: build_levels_stop)
    with 1(4) lv have "R = [?prev]" by (metis same_append_eq)
    moreover have "spec_levels cfg ?prev ?rest = [?prev]"
      using True by (subst spec_levels.simps) simp
    ultimately show ?thesis by simp
  next
    case False
    let ?t = "take ?n ?rest"
    let ?l = "levels @ [?t]"
    let ?i = "index + ?n"
    have go: "build_levels cfg G levels index = build_levels cfg G ?l ?i"
      using 1(3) False by (rule build_levels_go)
    obtain X where X: "build_levels cfg G ?l ?i = ?l @ X"
      using build_levels_append by blast
    have "butlast levels @ R = butlast levels @ (?prev # ?t # X)"
      using 1(4) go X lv by (metis append.assoc append_Cons append_Nil)
    then have R: "R = ?prev # ?t # X" by simp
    show ?thesis
    proof (cases "?rest = []")
      case True
      then have "spec_levels cfg ?prev ?rest = [?prev]" by (simp add: spec_levels_Nil)
      moreover have "\<not> full cfg R" using R True False by simp
      moreover have "\<not> full cfg [?prev]" using False by simp
      ultimately show ?thesis using 1(5) by simp
    next
      case rest: False
      have S: "spec_levels cfg ?prev ?rest = ?prev # spec_levels cfg ?t (drop ?n ?rest)"
        using False rest by (subst spec_levels.simps) simp
      obtain Y where Y: "spec_levels cfg ?t (drop ?n ?rest) = ?t # Y"
        using spec_levels_Cons by blast
      show ?thesis
      proof (cases "?i < length G")
        case True
        have dd: "drop (Suc ?i) G = drop ?n ?rest" by (simp add: add.commute)
        have b: "build_levels cfg G ?l ?i = butlast ?l @ (?t # X)" using X by simp
        have f1: "full cfg R \<Longrightarrow> full cfg (?t # X)" unfolding R by simp
        have f2: "full cfg (spec_levels cfg ?prev ?rest) \<Longrightarrow>
            full cfg (spec_levels cfg ?t (drop ?n ?rest))"
          unfolding S using Y by simp
        have f: "full cfg (?t # X) \<or> full cfg (spec_levels cfg (last ?l) (drop (Suc ?i) G))"
          using 1(5) f1 f2 unfolding dd by auto
        have ps: "py_slice G (index + 1) (index + 1 + ?n) = ?t" by (simp add: py_slice_def)
        note IH = 1(1)[OF conjI[OF 1(3) False] refl, unfolded ps]
        have "?t # X = spec_levels cfg (last ?l) (drop (Suc ?i) G)"
          by (rule IH[OF _ True b f]) simp
        then show ?thesis unfolding R S dd by simp
      next
        case False
        then have "length ?rest < ?n" using 1(3) by simp
        then have e: "drop ?n ?rest = []" by simp
        have "build_levels cfg G ?l ?i = ?l" using False by (simp add: build_levels_stop)
        with X have "X = []" by simp
        then show ?thesis unfolding R S e by (simp add: spec_levels_Nil)
      qed
    qed
  qed
qed


lemma enough_full:
  "levels \<noteq> [] \<Longrightarrow> index < length G \<Longrightarrow>
     build_levels cfg G levels index = butlast levels @ R \<Longrightarrow>
     enough cfg (length (last levels)) R \<Longrightarrow> full cfg R"
proof (induction cfg G levels index arbitrary: R rule: build_levels.induct)
  case (1 cfg G levels index)
  let ?prev = "last levels"
  let ?rest = "drop (Suc index) G"
  let ?n = "sum_args cfg ?prev"
  have lv: "levels = butlast levels @ [?prev]" using 1(2) by simp
  show ?case
  proof (cases "?n = 0")
    case True
    then have "build_levels cfg G levels index = levels" by (simp add: build_levels_stop)
    with 1(4) lv have "R = [?prev]" by (metis same_append_eq)
    then show ?thesis using True by simp
  next
    case False
    let ?t = "take ?n ?rest"
    let ?l = "levels @ [?t]"
    let ?i = "index + ?n"
    have go: "build_levels cfg G levels index = build_levels cfg G ?l ?i"
      using 1(3) False by (rule build_levels_go)
    obtain X where X: "build_levels cfg G ?l ?i = ?l @ X"
      using build_levels_append by blast
    have "butlast levels @ R = butlast levels @ (?prev # ?t # X)"
      using 1(4) go X lv by (metis append.assoc append_Cons append_Nil)
    then have R: "R = ?prev # ?t # X" by simp
    from 1(5) have en: "?n \<le> length ?t" and ex: "enough cfg (sum_args cfg (take ?n ?t)) X"
      unfolding R by simp_all
    from en have len: "length ?t = ?n" by simp
    then have lt: "?i < length G" using 1(3) by simp
    have e2: "enough cfg (length (last ?l)) (?t # X)"
      using ex len by simp
    have b: "build_levels cfg G ?l ?i = butlast ?l @ (?t # X)" using X by simp
    have ps: "py_slice G (index + 1) (index + 1 + ?n) = ?t" by (simp add: py_slice_def)
    note IH = 1(1)[OF conjI[OF 1(3) False] refl, unfolded ps]
    have "full cfg (?t # X)"
      by (rule IH[OF _ lt b e2]) simp
    then show ?thesis unfolding R using len by simp
  qed
qed

lemma full_enough: "full cfg (lv # ls) \<Longrightarrow> enough cfg (length lv) (lv # ls)"
proof (induction ls arbitrary: lv)
  case Nil
  then show ?case by simp
next
  case (Cons m ls)
  then have l: "length m = sum_args cfg lv" and f: "full cfg (m # ls)" by simp_all
  from Cons.IH[OF f] show ?case using l by simp
qed

lemma levels_of_gene_levels:
  assumes "gene \<noteq> []"
  shows "enough cfg 1 (levels_of cfg gene) \<longleftrightarrow> full cfg (gene_levels cfg gene)"
    and "full cfg (gene_levels cfg gene) \<Longrightarrow> levels_of cfg gene = gene_levels cfg gene"
proof -
  from assms obtain c g where g: "gene = c # g" by (cases gene) auto
  have b: "build_levels cfg gene [[c]] 0 = butlast [[c]] @ levels_of cfg gene"
    by (simp add: levels_of_def g)
  have s: "spec_levels cfg (last [[c]]) (drop (Suc 0) gene) = gene_levels cfg gene"
    by (simp add: gene_levels_def g)
  have pos: "0 < length gene" using assms by simp
  have agree: "full cfg (levels_of cfg gene) \<or> full cfg (gene_levels cfg gene) \<Longrightarrow>
      levels_of cfg gene = gene_levels cfg gene"
    using levels_agree[OF _ pos b] unfolding s by simp
  show 2: "full cfg (gene_levels cfg gene) \<Longrightarrow> levels_of cfg gene = gene_levels cfg gene"
    using agree by simp
  obtain M where M: "levels_of cfg gene = [c] # M"
    using levels_of_Cons[of cfg c g] g by auto
  show "enough cfg 1 (levels_of cfg gene) \<longleftrightarrow> full cfg (gene_levels cfg gene)"
  proof
    assume "enough cfg 1 (levels_of cfg gene)"
    then have "enough cfg (length (last [[c]])) (levels_of cfg gene)" by simp
    from enough_full[OF _ pos b this] have "full cfg (levels_of cfg gene)" by simp
    then show "full cfg (gene_levels cfg gene)" using agree by simp
  next
    assume f: "full cfg (gene_levels cfg gene)"
    then have "full cfg ([c] # M)" using 2 M by simp
    from full_enough[OF this] show "enough cfg 1 (levels_of cfg gene)" using M by simp
  qed
qed

lemma build_tree_spec:
  "build_tree cfg gene =
     (if gene \<noteq> [] \<and> full cfg (gene_levels cfg gene)
      then Inr (hd (forest cfg (gene_levels cfg gene)))
      else Inl IndexError)"
  using levels_of_gene_levels[of gene cfg] by (auto simp: build_tree_char)

lemma length_attach: "length (attach cfg lv F) = length lv"
  by (induction lv arbitrary: F) simp_all

lemma length_forest: "length (forest cfg (lv # ls)) = length lv"
  by (simp add: length_attach)

lemma attach_arity_ok:
  "list_all (arity_ok cfg) F \<Longrightarrow> length F = sum_args cfg lv \<Longrightarrow>
     list_all (arity_ok cfg) (attach cfg lv F)"
proof (induction lv arbitrary: F)
  case Nil
  then show ?case by simp
next
  case (Cons c cs)
  have s: "sum_args cfg (c # cs) = args cfg [c] + sum_args cfg cs" by (simp add: sum_args_def)
  have 1: "list_all (arity_ok cfg) (take (args cfg [c]) F)"
    using Cons.prems(1) by (auto simp: list_all_iff dest: in_set_takeD)
  have 2: "list_all (arity_ok cfg) (drop (args cfg [c]) F)"
    using Cons.prems(1) by (auto simp: list_all_iff dest: in_set_dropD)
  have 3: "length (drop (args cfg [c]) F) = sum_args cfg cs"
    using Cons.prems(2) s by simp
  have 4: "length (take (args cfg [c]) F) = args cfg [c]"
    using Cons.prems(2) s by simp
  show ?case using Cons.IH[OF 2 3] 1 4 by simp
qed

lemma full_arity_ok: "full cfg ls \<Longrightarrow> list_all (arity_ok cfg) (forest cfg ls)"
proof (induction cfg ls rule: full.induct)
  case (1 cfg)
  then show ?case by simp
next
  case (2 cfg lv)
  then show ?case using attach_arity_ok[of cfg "[]" lv] by simp
next
  case (3 cfg lv m ls)
  then have l: "length m = sum_args cfg lv" and f: "full cfg (m # ls)" by simp_all
  have "length (forest cfg (m # ls)) = sum_args cfg lv"
    using l by (simp only: length_forest)
  from attach_arity_ok[OF 3(1)[OF f] this] show ?case by simp
qed

subsection \<open>Concrete runs of the decoder\<close>


lemma args_example [simp]:
  "args example_config ''+'' = 2" "args example_config ''/'' = 2"
  "args example_config ''Q'' = 1" "args example_config ''E'' = 1"
  "args example_config ''a'' = 0" "args example_config ''b'' = 0"
  "args example_config ''x'' = 0" "args example_config ''?'' = 0"
  "args example_config ''0'' = 0" "args example_config ''2'' = 0"
  by (simp_all add: args_def example_config_def)

lemma levels_plus_ab:
  assumes "args cfg ''+'' = 2" "args cfg ''a'' = 0" "args cfg ''b'' = 0"
  shows "levels_of cfg ''+ab'' = [''+'', ''ab'']"
  unfolding levels_of_def
  apply (subst build_levels.simps)
  apply (simp add: sum_args_def assms py_slice_def)
  apply (subst build_levels.simps)
  apply (simp add: sum_args_def assms py_slice_def)
  done

lemma gene_levels_plus_ab:
  assumes "args cfg ''+'' = 2" "args cfg ''a'' = 0" "args cfg ''b'' = 0"
  shows "gene_levels cfg ''+ab'' = [''+'', ''ab'']"
  unfolding gene_levels_def list.case
  apply (subst spec_levels.simps)
  apply (simp add: sum_args_def assms)
  apply (subst spec_levels.simps)
  apply (simp add: sum_args_def assms)
  done

lemma gene_levels_example: "gene_levels example_config ''+a+ba'' = [''+'', ''a+'', ''ba'']"
  unfolding gene_levels_def list.case
  apply (subst spec_levels.simps)
  apply (simp add: sum_args_def)
  apply (subst spec_levels.simps)
  apply (simp add: sum_args_def)
  apply (subst spec_levels.simps)
  apply (simp add: sum_args_def)
  done

lemma gene_levels_plus_a: "gene_levels example_config ''+a'' = [''+'', ''a'']"
  unfolding gene_levels_def list.case
  apply (subst spec_levels.simps)
  apply (simp add: sum_args_def)
  apply (subst spec_levels.simps)
  apply (simp add: sum_args_def)
  done

text \<open>
  Claim C1, as stated, fails: decoding does not always return a tree. In the gene \<open>+a\<close> the
  root \<open>+\<close> of arity 2 finds one symbol only in level 1, and \<open>build_tree\<close> raises
  IndexError.
\<close>

theorem build_tree_truncated_counterexample:
  "build_tree example_config ''+a'' = Inl IndexError"
  by (simp add: build_tree_spec gene_levels_plus_a sum_args_def)

text \<open>
  Claim C1, amended. The levels are those of the specification (\<open>gene_levels\<close>, cut from
  the gene without the decoder's loop). On every gene that is complete (each level holds
  exactly the symbols the level above asks for, the last level asks for none),
  \<open>build_tree\<close> returns the tree of the breadth-first rule: the root is the first symbol
  of the gene, each node of a level, left to right, has as children the next \<open>args\<close> not
  yet assigned symbols of the level below, in order (\<open>forest\<close>), and every node has
  exactly \<open>args\<close> children. On every other gene it raises IndexError. With \<open>+\<close> of arity 2
  and the terminals \<open>a\<close> and \<open>b\<close>, the gene \<open>+ab\<close> decodes to the root \<open>+\<close> with the leaves
  \<open>a\<close> and \<open>b\<close>, in that order.
\<close>

theorem build_tree_breadth_first:
  "(gene \<noteq> [] \<and> full cfg (gene_levels cfg gene) \<longrightarrow>
      build_tree cfg gene = Inr (hd (forest cfg (gene_levels cfg gene))) \<and>
      name (hd (forest cfg (gene_levels cfg gene))) = [hd gene] \<and>
      arity_ok cfg (hd (forest cfg (gene_levels cfg gene))))
   \<and> (\<not> (gene \<noteq> [] \<and> full cfg (gene_levels cfg gene)) \<longrightarrow>
      build_tree cfg gene = Inl IndexError)
   \<and> (args cfg ''+'' = 2 \<and> args cfg ''a'' = 0 \<and> args cfg ''b'' = 0 \<longrightarrow>
      build_tree cfg ''+ab'' = Inr (Node ''+'' [Node ''a'' [], Node ''b'' []]))"
proof (intro conjI impI)
  assume a: "gene \<noteq> [] \<and> full cfg (gene_levels cfg gene)"
  then show "build_tree cfg gene = Inr (hd (forest cfg (gene_levels cfg gene)))"
    by (simp add: build_tree_spec)
  from a obtain c g where g: "gene = c # g" by (cases gene) auto
  obtain Y where Y: "gene_levels cfg (c # g) = [c] # Y"
    using spec_levels_Cons[of cfg "[c]" g] by (auto simp: gene_levels_def)
  then show "name (hd (forest cfg (gene_levels cfg gene))) = [hd gene]"
    by (simp add: g)
  from a have "list_all (arity_ok cfg) (forest cfg (gene_levels cfg gene))"
    by (simp add: full_arity_ok)
  moreover have "forest cfg (gene_levels cfg gene) \<noteq> []"
    using Y by (simp add: g)
  ultimately show "arity_ok cfg (hd (forest cfg (gene_levels cfg gene)))"
    by (cases "forest cfg (gene_levels cfg gene)") simp_all
next
  assume "\<not> (gene \<noteq> [] \<and> full cfg (gene_levels cfg gene))"
  then show "build_tree cfg gene = Inl IndexError"
    by (simp add: build_tree_spec)
next
  assume a: "args cfg ''+'' = 2 \<and> args cfg ''a'' = 0 \<and> args cfg ''b'' = 0"
  then have l: "gene_levels cfg ''+ab'' = [''+'', ''ab'']" by (simp add: gene_levels_plus_ab)
  show "build_tree cfg ''+ab'' = Inr (Node ''+'' [Node ''a'' [], Node ''b'' []])"
    using a by (simp add: build_tree_spec l sum_args_def)
qed

theorem build_tree_breadth_first_witness:
  "''+a+ba'' \<noteq> [] \<and> full example_config (gene_levels example_config ''+a+ba'') \<and>
   build_tree example_config ''+a+ba'' =
     Inr (Node ''+'' [Node ''a'' [], Node ''+'' [Node ''b'' [], Node ''a'' []]]) \<and>
   arity_ok example_config (Node ''+'' [Node ''a'' [], Node ''+'' [Node ''b'' [], Node ''a'' []]]) \<and>
   \<not> (''+a'' \<noteq> [] \<and> full example_config (gene_levels example_config ''+a'')) \<and>
   build_tree example_config ''+a'' = Inl IndexError \<and>
   args example_config ''+'' = 2 \<and> args example_config ''a'' = 0 \<and> args example_config ''b'' = 0 \<and>
   build_tree example_config ''+ab'' = Inr (Node ''+'' [Node ''a'' [], Node ''b'' []])"
proof -
  have h: "''+a+ba'' \<noteq> [] \<and> full example_config (gene_levels example_config ''+a+ba'')"
    by (simp add: gene_levels_example sum_args_def)
  have f: "hd (forest example_config (gene_levels example_config ''+a+ba'')) =
      Node ''+'' [Node ''a'' [], Node ''+'' [Node ''b'' [], Node ''a'' []]]"
    by (simp add: gene_levels_example)
  have n: "\<not> (''+a'' \<noteq> [] \<and> full example_config (gene_levels example_config ''+a''))"
    by (simp add: gene_levels_plus_a sum_args_def)
  have k: "args example_config ''+'' = 2 \<and> args example_config ''a'' = 0 \<and>
      args example_config ''b'' = 0" by simp
  show ?thesis
    using build_tree_breadth_first[of "''+a+ba''" example_config]
      build_tree_breadth_first[of "''+a''" example_config] h f n k
    by simp
qed

lemma levels_plus: "levels_of example_config ''+'' = [''+'', '''']"
  unfolding levels_of_def
  apply (subst build_levels.simps)
  apply (simp add: sum_args_def py_slice_def)
  apply (subst build_levels.simps)
  apply (simp add: sum_args_def py_slice_def)
  done

text \<open>
  Claim C10, as stated, fails: the one-symbol gene \<open>+\<close> is not empty, and \<open>build_tree\<close>
  raises IndexError on it, because the root finds no children.
\<close>

theorem build_tree_nonempty_counterexample:
  "''+'' \<noteq> [] \<and> build_tree example_config ''+'' = Inl IndexError"
  by (simp add: build_tree_char levels_plus sum_args_def)

text \<open>
  Claim C10, amended. \<open>build_tree\<close> raises IndexError on the empty gene, and on a gene in
  which some node does not find its children; on every other gene it returns a tree whose
  root symbol is the first character of the gene.
\<close>

theorem build_tree_root:
  "build_tree cfg [] = Inl IndexError \<and>
   (build_tree cfg gene = Inr t \<longrightarrow> gene \<noteq> [] \<and> name t = [hd gene]) \<and>
   (gene \<noteq> [] \<and> enough cfg 1 (levels_of cfg gene) \<longrightarrow>
      (\<exists>t. build_tree cfg gene = Inr t \<and> name t = [hd gene])) \<and>
   (gene \<noteq> [] \<and> \<not> enough cfg 1 (levels_of cfg gene) \<longrightarrow> build_tree cfg gene = Inl IndexError)"
proof -
  have r: "gene \<noteq> [] \<Longrightarrow> name (hd (forest cfg (levels_of cfg gene))) = [hd gene]"
  proof -
    assume "gene \<noteq> []"
    then obtain c g where g: "gene = c # g" by (cases gene) auto
    obtain M where "levels_of cfg (c # g) = [c] # M" using levels_of_Cons by blast
    then show ?thesis by (simp add: g)
  qed
  show ?thesis
    using r by (auto simp: build_tree_char split: if_splits)
qed

theorem build_tree_root_witness:
  "build_tree example_config [] = Inl IndexError \<and>
   build_tree example_config ''+ab'' = Inr (Node ''+'' [Node ''a'' [], Node ''b'' []]) \<and>
   ''+ab'' \<noteq> [] \<and> name (Node ''+'' [Node ''a'' [], Node ''b'' []]) = [hd ''+ab''] \<and>
   enough example_config 1 (levels_of example_config ''+ab'') \<and>
   ''+'' \<noteq> [] \<and> \<not> enough example_config 1 (levels_of example_config ''+'') \<and>
   build_tree example_config ''+'' = Inl IndexError"
proof -
  have a: "build_tree example_config ''+ab'' = Inr (Node ''+'' [Node ''a'' [], Node ''b'' []])"
    by (simp add: build_tree_char levels_plus_ab sum_args_def)
  have b: "enough example_config 1 (levels_of example_config ''+ab'')"
    by (simp add: levels_plus_ab sum_args_def)
  have c: "\<not> enough example_config 1 (levels_of example_config ''+'')"
    by (simp add: levels_plus sum_args_def)
  show ?thesis
    using build_tree_root[of example_config "''+ab''" "Node ''+'' [Node ''a'' [], Node ''b'' []]"]
      build_tree_root[of example_config "''+''"] a b c
    by simp
qed


subsection \<open>Linking\<close>




lemma link_recursive_some_length:
  assumes "link_recursive lf k trs = Some t"
  shows "k \<le> length trs"
proof (rule link_recursive.raw_induct[where P = "\<lambda>lf k trs t. k \<le> length trs", OF _ assms])
  fix f :: "symbol \<Rightarrow> nat \<Rightarrow> tree list \<Rightarrow> tree option" and lf k trs t
  assume IH: "\<And>lf k trs t. f lf k trs = Some t \<Longrightarrow> k \<le> length trs"
    and body: "(if length trs = k then Some (Node lf trs)
      else Option.bind (f lf k (take k trs)) (\<lambda>t. f lf k (t # drop k trs))) = Some t"
  show "k \<le> length trs"
  proof (cases "length trs = k")
    case True
    then show ?thesis by simp
  next
    case False
    with body obtain a where "f lf k (take k trs) = Some a"
      by (auto simp: bind_eq_Some_conv)
    from IH[OF this] show ?thesis by simp
  qed
qed

lemma link_recursive_too_few: "length trs < k \<Longrightarrow> link_recursive lf k trs = None"
  using link_recursive_some_length[of lf k trs] by (cases "link_recursive lf k trs") fastforce+

lemma args_example_entry:
  "linking_function example_config = Some ''+''"
  "functions' example_config ''+'' = Some \<lparr>f_args = 2, f_call = plus_f\<rparr>"
  by (simp_all add: example_config_def)




subsection \<open>Evaluation\<close>

lemma build_tree_error: "build_tree cfg g = Inl e \<Longrightarrow> e = IndexError"
  by (simp add: build_tree_char split: if_splits)

lemma build_trees_error: "build_trees cfg gs = Inl e \<Longrightarrow> e = IndexError"
  by (induction gs) (auto split: sum.splits dest: build_tree_error)

lemma link_error: "link cfg ts = Some (Inl e) \<Longrightarrow> e = ValueError"
  by (auto simp: link_def split: option.splits)

lemma py_index_error: "py_index xs i = Inl e \<Longrightarrow> e = IndexError"
  by (simp add: py_index_def split: if_splits)

lemma evaluate_hit:
  "values' ch (value_fingerprint tv) = Some v \<Longrightarrow> evaluate cfg ch tv = Some (Inr v, ch)"
  by (simp add: evaluate_def)

lemma evaluate_build_fails:
  assumes "values' ch (value_fingerprint tv) = None"
    and "(if length (trees ch) = 0 then build_trees cfg (genes ch) else Inr (trees ch)) = Inl e"
  shows "evaluate cfg ch tv = Some (Inl e, ch)"
  using assms by (simp add: evaluate_def)

lemma evaluate_link_fails:
  assumes "values' ch (value_fingerprint tv) = None"
    and "(if length (trees ch) = 0 then build_trees cfg (genes ch) else Inr (trees ch)) = Inr ts"
    and "(if num_genes cfg > 1 then link cfg ts else Some (py_index ts 0)) = Some (Inl e)"
  shows "evaluate cfg ch tv = Some (Inl e, ch\<lparr>trees := ts\<rparr>)"
  using assms by (simp add: evaluate_def)

lemma evaluate_link_diverges:
  assumes "values' ch (value_fingerprint tv) = None"
    and "(if length (trees ch) = 0 then build_trees cfg (genes ch) else Inr (trees ch)) = Inr ts"
    and "(if num_genes cfg > 1 then link cfg ts else Some (py_index ts 0)) = None"
  shows "evaluate cfg ch tv = None"
  using assms by (simp add: evaluate_def)

lemma evaluate_miss:
  assumes "values' ch (value_fingerprint tv) = None"
    and "(if length (trees ch) = 0 then build_trees cfg (genes ch) else Inr (trees ch)) = Inr ts"
    and "(if num_genes cfg > 1 then link cfg ts else Some (py_index ts 0)) = Some (Inr t)"
  shows "evaluate cfg ch tv =
     (case inorder cfg (ephemeral_random_constants ch) tv t 0 of
        Inr (v, j) \<Rightarrow>
          (if is_complex v
           then Some (Inr (Num NaN),
                  ch\<lparr>trees := ts, values' := (values' ch)(value_fingerprint tv \<mapsto> Num NaN)\<rparr>)
           else Some (Inr v, ch\<lparr>trees := ts, values' := (values' ch)(value_fingerprint tv \<mapsto> v)\<rparr>))
      | Inl e \<Rightarrow>
          (if e = ZeroDivisionError \<or> e = TypeError
           then Some (Inr (Num NaN),
                  ch\<lparr>trees := ts, values' := (values' ch)(value_fingerprint tv \<mapsto> Num NaN)\<rparr>)
           else Some (Inl e, ch\<lparr>trees := ts\<rparr>)))"
  using assms by (simp add: evaluate_def split: sum.splits prod.splits)






lemma gene_levels_div: "gene_levels example_config ''/x0'' = [''/'', ''x0'']"
  unfolding gene_levels_def list.case
  apply (subst spec_levels.simps)
  apply (simp add: sum_args_def)
  apply (subst spec_levels.simps)
  apply (simp add: sum_args_def)
  done

lemma build_tree_div:
  "build_tree example_config ''/x0'' = Inr (Node ''/'' [Node ''x'' [], Node ''0'' []])"
  by (simp add: build_tree_spec gene_levels_div sum_args_def)

lemma example_fields [simp]:
  "functions' example_config ''/'' = Some \<lparr>f_args = 2, f_call = div_f\<rparr>"
  "functions' example_config ''Q'' = Some \<lparr>f_args = 1, f_call = sqrt_f\<rparr>"
  "functions' example_config ''E'' = Some \<lparr>f_args = 1, f_call = exp_f\<rparr>"
  "functions' example_config ''x'' = None"
  "functions' example_config ''0'' = None"
  "functions' example_config ''2'' = None"
  "functions' example_config ''?'' = None"
  "terminals example_config = [''a'', ''b'', ''x'', ''?'', ''0'', ''2'']"
  "constants example_config = Map.empty"
  "num_genes example_config = 1"
  by (simp_all add: example_config_def)

lemma isdigit_0: "isdigit ''0''" "\<not> isdigit ''x''" "isdigit ''2''" "\<not> isdigit ''a''"
  by (simp_all add: isdigit_def)

lemma py_int_0: "py_int ''0'' = 0" "py_int ''2'' = 2"
  by (simp_all add: py_int_def)

lemma inorder_div:
  "inorder example_config erc [(''x'', Num (Fin 1))] (Node ''/'' [Node ''x'' [], Node ''0'' []]) 0
     = Inl ZeroDivisionError"
  by (simp add: isdigit_0 py_int_0)

lemma evaluate_single:
  assumes "build_tree cfg g = Inr t" and "num_genes cfg = 1"
  shows "evaluate cfg (example_chromosome [g]) tv =
     (case inorder cfg [1/2, 1/4, 1/8] tv t 0 of
        Inr (v, j) \<Rightarrow>
          (if is_complex v
           then Some (Inr (Num NaN),
                  (example_chromosome [g])\<lparr>trees := [t], values' := [value_fingerprint tv \<mapsto> Num NaN]\<rparr>)
           else Some (Inr v,
                  (example_chromosome [g])\<lparr>trees := [t], values' := [value_fingerprint tv \<mapsto> v]\<rparr>))
      | Inl e \<Rightarrow>
          (if e = ZeroDivisionError \<or> e = TypeError
           then Some (Inr (Num NaN),
                  (example_chromosome [g])\<lparr>trees := [t], values' := [value_fingerprint tv \<mapsto> Num NaN]\<rparr>)
           else Some (Inl e, (example_chromosome [g])\<lparr>trees := [t]\<rparr>)))"
proof -
  have 1: "values' (example_chromosome [g]) (value_fingerprint tv) = None"
    by (simp add: example_chromosome_def)
  have 2: "(if length (trees (example_chromosome [g])) = 0
       then build_trees cfg (genes (example_chromosome [g]))
       else Inr (trees (example_chromosome [g]))) = Inr [t]"
    using assms(1) by (simp add: example_chromosome_def)
  have 3: "(if num_genes cfg > 1 then link cfg [t] else Some (py_index [t] 0)) = Some (Inr t)"
    using assms(2) by (simp add: py_index_def)
  have v: "values' (example_chromosome [g]) = Map.empty"
    by (simp add: example_chromosome_def)
  have e: "ephemeral_random_constants (example_chromosome [g]) = [1/2, 1/4, 1/8]"
    by (simp add: example_chromosome_def)
  show ?thesis
    unfolding evaluate_miss[OF 1 2 3] v e by (rule refl)
qed

lemma evaluate_div:
  "evaluate example_config (example_chromosome [''/x0'']) [(''x'', Num (Fin 1))] =
     Some (Inr (Num NaN),
       (example_chromosome [''/x0''])
         \<lparr>trees := [Node ''/'' [Node ''x'' [], Node ''0'' []]],
          values' := [[(''x'', Num (Fin 1))] \<mapsto> Num NaN]\<rparr>)"
  by (simp add: evaluate_single[OF build_tree_div] value_fingerprint_def isdigit_0 py_int_0)


lemma gene_levels_plus_x2: "gene_levels example_config ''+x2'' = [''+'', ''x2'']"
  unfolding gene_levels_def list.case
  apply (subst spec_levels.simps)
  apply (simp add: sum_args_def)
  apply (subst spec_levels.simps)
  apply (simp add: sum_args_def)
  done

lemma build_tree_plus_x2:
  "build_tree example_config ''+x2'' = Inr (Node ''+'' [Node ''x'' [], Node ''2'' []])"
  by (simp add: build_tree_spec gene_levels_plus_x2 sum_args_def)

lemma evaluate_plus_x2:
  "evaluate example_config (example_chromosome [''+x2'']) [(''x'', Num (Fin 2))] =
     Some (Inr (Num (Fin 4)),
       (example_chromosome [''+x2''])
         \<lparr>trees := [Node ''+'' [Node ''x'' [], Node ''2'' []]],
          values' := [[(''x'', Num (Fin 2))] \<mapsto> Num (Fin 4)]\<rparr>)"
  by (simp add: evaluate_single[OF build_tree_plus_x2] value_fingerprint_def isdigit_0 py_int_0
        args_example_entry)


lemma gene_levels_Exa: "gene_levels example_config ''Exa'' = [''E'', ''x'']"
  unfolding gene_levels_def list.case
  apply (subst spec_levels.simps)
  apply (simp add: sum_args_def)
  apply (subst spec_levels.simps)
  apply (simp add: sum_args_def)
  done

lemma build_tree_Exa: "build_tree example_config ''Exa'' = Inr (Node ''E'' [Node ''x'' []])"
  by (simp add: build_tree_spec gene_levels_Exa sum_args_def)

lemma inorder_Exa:
  "inorder example_config erc [(''x'', Num (Fin 1000))] (Node ''E'' [Node ''x'' []]) 0 =
     Inl OverflowError"
  by (simp add: isdigit_0)

text \<open>
  Claim C5, as stated, fails: an arithmetic failure other than a division by zero is not
  caught. With \<^verbatim>\<open>math.exp\<close> registered as \<open>E\<close>, the gene \<open>Exa\<close> at \<open>x = 1000\<close> raises
  OverflowError, and \<open>evaluate\<close> passes it on to the caller.
\<close>

theorem evaluate_overflow_counterexample:
  "evaluate example_config (example_chromosome [''Exa'']) [(''x'', Num (Fin 1000))] =
     Some (Inl OverflowError, (example_chromosome [''Exa''])\<lparr>trees := [Node ''E'' [Node ''x'' []]]\<rparr>)"
  by (simp add: evaluate_single[OF build_tree_Exa] isdigit_0)

text \<open>
  Claim C5, amended. When the reduction of the expression tree raises ZeroDivisionError
  or TypeError, or yields a complex number, that call of \<open>evaluate\<close> returns not-a-number
  and caches it; \<open>evaluate\<close> never passes a ZeroDivisionError or a TypeError on to its
  caller. Any other exception raised during the reduction is passed on.
\<close>

theorem evaluate_catches:
  "(values' ch (value_fingerprint tv) = None \<and>
    (if length (trees ch) = 0 then build_trees cfg (genes ch) else Inr (trees ch)) = Inr ts \<and>
    (if num_genes cfg > 1 then link cfg ts else Some (py_index ts 0)) = Some (Inr t) \<longrightarrow>
      ((inorder cfg (ephemeral_random_constants ch) tv t 0 = Inl ZeroDivisionError \<or>
        inorder cfg (ephemeral_random_constants ch) tv t 0 = Inl TypeError \<or>
        (\<exists>z j. inorder cfg (ephemeral_random_constants ch) tv t 0 = Inr (Cplx z, j))) \<longrightarrow>
         evaluate cfg ch tv =
           Some (Inr (Num NaN),
             ch\<lparr>trees := ts, values' := (values' ch)(value_fingerprint tv \<mapsto> Num NaN)\<rparr>)) \<and>
      (inorder cfg (ephemeral_random_constants ch) tv t 0 = Inl e \<and>
        e \<noteq> ZeroDivisionError \<and> e \<noteq> TypeError \<longrightarrow>
         evaluate cfg ch tv = Some (Inl e, ch\<lparr>trees := ts\<rparr>)))
   \<and> (evaluate cfg ch tv = Some (r, ch1) \<longrightarrow> r \<noteq> Inl ZeroDivisionError \<and> r \<noteq> Inl TypeError)"
proof (intro conjI impI)
  assume h: "values' ch (value_fingerprint tv) = None \<and>
    (if length (trees ch) = 0 then build_trees cfg (genes ch) else Inr (trees ch)) = Inr ts \<and>
    (if num_genes cfg > 1 then link cfg ts else Some (py_index ts 0)) = Some (Inr t)"
  then have m: "evaluate cfg ch tv =
     (case inorder cfg (ephemeral_random_constants ch) tv t 0 of
        Inr (v, j) \<Rightarrow>
          (if is_complex v
           then Some (Inr (Num NaN),
                  ch\<lparr>trees := ts, values' := (values' ch)(value_fingerprint tv \<mapsto> Num NaN)\<rparr>)
           else Some (Inr v, ch\<lparr>trees := ts, values' := (values' ch)(value_fingerprint tv \<mapsto> v)\<rparr>))
      | Inl e \<Rightarrow>
          (if e = ZeroDivisionError \<or> e = TypeError
           then Some (Inr (Num NaN),
                  ch\<lparr>trees := ts, values' := (values' ch)(value_fingerprint tv \<mapsto> Num NaN)\<rparr>)
           else Some (Inl e, ch\<lparr>trees := ts\<rparr>)))"
    by (simp add: evaluate_miss)
  {
    assume "inorder cfg (ephemeral_random_constants ch) tv t 0 = Inl ZeroDivisionError \<or>
        inorder cfg (ephemeral_random_constants ch) tv t 0 = Inl TypeError \<or>
        (\<exists>z j. inorder cfg (ephemeral_random_constants ch) tv t 0 = Inr (Cplx z, j))"
    then show "evaluate cfg ch tv =
           Some (Inr (Num NaN),
             ch\<lparr>trees := ts, values' := (values' ch)(value_fingerprint tv \<mapsto> Num NaN)\<rparr>)"
      unfolding m by auto
  }
  {
    assume "inorder cfg (ephemeral_random_constants ch) tv t 0 = Inl e \<and>
        e \<noteq> ZeroDivisionError \<and> e \<noteq> TypeError"
    then show "evaluate cfg ch tv = Some (Inl e, ch\<lparr>trees := ts\<rparr>)"
      unfolding m by auto
  }
next
  assume a: "evaluate cfg ch tv = Some (r, ch1)"
  have "r \<noteq> Inl ZeroDivisionError \<and> r \<noteq> Inl TypeError"
  proof (cases "values' ch (value_fingerprint tv)")
    case (Some v)
    with a show ?thesis by (auto simp: evaluate_hit)
  next
    case None
    show ?thesis
    proof (cases "if length (trees ch) = 0 then build_trees cfg (genes ch) else Inr (trees ch)")
      case (Inl e)
      have "e = IndexError" using Inl by (auto split: if_splits dest: build_trees_error)
      then show ?thesis using a evaluate_build_fails[OF None Inl] by auto
    next
      case (Inr ts)
      show ?thesis
      proof (cases "if num_genes cfg > 1 then link cfg ts else Some (py_index ts 0)")
        case Nn: None
        then show ?thesis using a evaluate_link_diverges[OF None Inr] by auto
      next
        case (Some lr)
        show ?thesis
        proof (cases lr)
          case (Inl e)
          have "e = ValueError \<or> e = IndexError"
            using Some Inl by (auto split: if_splits dest: link_error py_index_error)
          moreover have "evaluate cfg ch tv = Some (Inl e, ch\<lparr>trees := ts\<rparr>)"
            using evaluate_link_fails[OF None Inr] Some Inl by simp
          ultimately show ?thesis using a by auto
        next
          case t: (Inr t)
          have L: "(if num_genes cfg > 1 then link cfg ts else Some (py_index ts 0)) = Some (Inr t)"
            using Some t by simp
          show ?thesis
            using a unfolding evaluate_miss[OF None Inr L]
            by (auto split: sum.splits prod.splits if_splits)
        qed
      qed
    qed
  qed
  then show "r \<noteq> Inl ZeroDivisionError" "r \<noteq> Inl TypeError" by simp_all
qed


lemma example_miss:
  "values' (example_chromosome [g]) fp = None"
  "build_tree cfg g = Inr t \<Longrightarrow>
     (if length (trees (example_chromosome [g])) = 0
      then build_trees cfg (genes (example_chromosome [g]))
      else Inr (trees (example_chromosome [g]))) = Inr [t]"
  "num_genes cfg = 1 \<Longrightarrow>
     (if num_genes cfg > 1 then link cfg [t] else Some (py_index [t] 0)) = Some (Inr t)"
  "ephemeral_random_constants (example_chromosome [g]) = [1/2, 1/4, 1/8]"
  by (simp_all add: example_chromosome_def py_index_def)

theorem evaluate_catches_witness:
  "values' (example_chromosome [''/x0'']) (value_fingerprint [(''x'', Num (Fin 1))]) = None \<and>
   (if length (trees (example_chromosome [''/x0''])) = 0
    then build_trees example_config (genes (example_chromosome [''/x0'']))
    else Inr (trees (example_chromosome [''/x0'']))) = Inr [Node ''/'' [Node ''x'' [], Node ''0'' []]] \<and>
   (if num_genes example_config > 1 then link example_config [Node ''/'' [Node ''x'' [], Node ''0'' []]]
    else Some (py_index [Node ''/'' [Node ''x'' [], Node ''0'' []]] 0)) =
     Some (Inr (Node ''/'' [Node ''x'' [], Node ''0'' []])) \<and>
   inorder example_config (ephemeral_random_constants (example_chromosome [''/x0'']))
     [(''x'', Num (Fin 1))] (Node ''/'' [Node ''x'' [], Node ''0'' []]) 0 = Inl ZeroDivisionError \<and>
   evaluate example_config (example_chromosome [''/x0'']) [(''x'', Num (Fin 1))] =
     Some (Inr (Num NaN),
       (example_chromosome [''/x0''])
         \<lparr>trees := [Node ''/'' [Node ''x'' [], Node ''0'' []]],
          values' := (values' (example_chromosome [''/x0'']))
             (value_fingerprint [(''x'', Num (Fin 1))] \<mapsto> Num NaN)\<rparr>) \<and>
   values' (example_chromosome [''Exa'']) (value_fingerprint [(''x'', Num (Fin 1000))]) = None \<and>
   (if length (trees (example_chromosome [''Exa''])) = 0
    then build_trees example_config (genes (example_chromosome [''Exa'']))
    else Inr (trees (example_chromosome [''Exa'']))) = Inr [Node ''E'' [Node ''x'' []]] \<and>
   (if num_genes example_config > 1 then link example_config [Node ''E'' [Node ''x'' []]]
    else Some (py_index [Node ''E'' [Node ''x'' []]] 0)) = Some (Inr (Node ''E'' [Node ''x'' []])) \<and>
   inorder example_config (ephemeral_random_constants (example_chromosome [''Exa'']))
     [(''x'', Num (Fin 1000))] (Node ''E'' [Node ''x'' []]) 0 = Inl OverflowError \<and>
   OverflowError \<noteq> ZeroDivisionError \<and> OverflowError \<noteq> TypeError \<and>
   evaluate example_config (example_chromosome [''Exa'']) [(''x'', Num (Fin 1000))] =
     Some (Inl OverflowError, (example_chromosome [''Exa''])\<lparr>trees := [Node ''E'' [Node ''x'' []]]\<rparr>) \<and>
   Inr (Num NaN) \<noteq> (Inl ZeroDivisionError :: error + pyval) \<and>
   Inr (Num NaN) \<noteq> (Inl TypeError :: error + pyval)"
proof -
  note d = example_miss(1)[of "''/x0''"] example_miss(2)[OF build_tree_div]
    example_miss(3)[of example_config "Node ''/'' [Node ''x'' [], Node ''0'' []]"]
  note x = example_miss(1)[of "''Exa''"] example_miss(2)[OF build_tree_Exa]
    example_miss(3)[of example_config "Node ''E'' [Node ''x'' []]"]
  have n: "num_genes example_config = 1" by simp
  have i1: "inorder example_config (ephemeral_random_constants (example_chromosome [''/x0'']))
     [(''x'', Num (Fin 1))] (Node ''/'' [Node ''x'' [], Node ''0'' []]) 0 = Inl ZeroDivisionError"
    by (rule inorder_div)
  have i2: "inorder example_config (ephemeral_random_constants (example_chromosome [''Exa'']))
     [(''x'', Num (Fin 1000))] (Node ''E'' [Node ''x'' []]) 0 = Inl OverflowError"
    by (rule inorder_Exa)
  from evaluate_catches[of "example_chromosome [''/x0'']" "[(''x'', Num (Fin 1))]" example_config
      "[Node ''/'' [Node ''x'' [], Node ''0'' []]]" "Node ''/'' [Node ''x'' [], Node ''0'' []]"
      OverflowError "Inr (Num NaN)"
      "(example_chromosome [''/x0''])
         \<lparr>trees := [Node ''/'' [Node ''x'' [], Node ''0'' []]],
          values' := (values' (example_chromosome [''/x0'']))
             (value_fingerprint [(''x'', Num (Fin 1))] \<mapsto> Num NaN)\<rparr>"]
  have a: "evaluate example_config (example_chromosome [''/x0'']) [(''x'', Num (Fin 1))] =
     Some (Inr (Num NaN),
       (example_chromosome [''/x0''])
         \<lparr>trees := [Node ''/'' [Node ''x'' [], Node ''0'' []]],
          values' := (values' (example_chromosome [''/x0'']))
             (value_fingerprint [(''x'', Num (Fin 1))] \<mapsto> Num NaN)\<rparr>)"
    using d(1) d(2) d(3)[OF n] i1 by blast
  from evaluate_catches[of "example_chromosome [''Exa'']" "[(''x'', Num (Fin 1000))]" example_config
      "[Node ''E'' [Node ''x'' []]]" "Node ''E'' [Node ''x'' []]" OverflowError]
  have b: "evaluate example_config (example_chromosome [''Exa'']) [(''x'', Num (Fin 1000))] =
     Some (Inl OverflowError, (example_chromosome [''Exa''])\<lparr>trees := [Node ''E'' [Node ''x'' []]]\<rparr>)"
    using x(1) x(2) x(3)[OF n] i2 by blast
  show ?thesis
    using a b d(1) d(2) d(3)[OF n] i1 x(1) x(2) x(3)[OF n] i2 by simp
qed


subsection \<open>The scorers\<close>

lemma abs_cases_finite:
  "evaluate_cases cfg ch (map fst cs) = Some (Inr (map (\<lambda>r. Num (Fin r)) rs), ch1) \<Longrightarrow>
     abs_cases cfg M ch cs fit =
       Some (Inr (foldl num_add fit
               (map (\<lambda>(r, T). num_sub M (num_abs (num_sub (Fin r) T))) (zip rs (map snd cs)))),
             ch1)"
proof (induction cs arbitrary: ch rs fit)
  case Nil
  then show ?case by simp
next
  case (Cons c cs)
  obtain b T where c: "c = (b, T)" by (cases c)
  from Cons.prems obtain r rs' ch' where
    e: "evaluate cfg ch b = Some (Inr (Num (Fin r)), ch')" and
    rs: "rs = r # rs'" and
    rest: "evaluate_cases cfg ch' (map fst cs) = Some (Inr (map (\<lambda>r. Num (Fin r)) rs'), ch1)"
    unfolding c by (auto split: option.splits sum.splits prod.splits simp: map_eq_Cons_conv)
  show ?case
    unfolding c rs using e Cons.IH[OF rest] by simp
qed

lemma abs_cases_bad:
  "evaluate_cases cfg ch (map fst pre) = Some (Inr (map (\<lambda>r. Num (Fin r)) rs), ch1) \<Longrightarrow>
   evaluate cfg ch1 b = Some (Inr v, ch2) \<Longrightarrow> bad_value v = Inr True \<Longrightarrow>
     abs_cases cfg M ch (pre @ (b, T) # post) fit = Some (Inr (Fin 0), ch2)"
proof (induction pre arbitrary: ch rs fit)
  case Nil
  then show ?case by simp
next
  case (Cons c pre)
  obtain b' T' where c: "c = (b', T')" by (cases c)
  from Cons.prems(1) obtain r rs' ch' where
    e: "evaluate cfg ch b' = Some (Inr (Num (Fin r)), ch')" and
    rest: "evaluate_cases cfg ch' (map fst pre) = Some (Inr (map (\<lambda>r. Num (Fin r)) rs'), ch1)"
    unfolding c by (auto split: option.splits sum.splits prod.splits simp: map_eq_Cons_conv)
  show ?case
    unfolding c using e Cons.IH[OF rest Cons.prems(2,3)] by simp
qed

lemma abs_cases_raises:
  "evaluate_cases cfg ch (map fst pre) = Some (Inr (map (\<lambda>r. Num (Fin r)) rs), ch1) \<Longrightarrow>
   evaluate cfg ch1 b = Some (Inl e, ch2) \<Longrightarrow>
     abs_cases cfg M ch (pre @ (b, T) # post) fit = Some (Inl e, ch2)"
proof (induction pre arbitrary: ch rs fit)
  case Nil
  then show ?case by simp
next
  case (Cons c pre)
  obtain b' T' where c: "c = (b', T')" by (cases c)
  from Cons.prems(1) obtain r rs' ch' where
    e: "evaluate cfg ch b' = Some (Inr (Num (Fin r)), ch')" and
    rest: "evaluate_cases cfg ch' (map fst pre) = Some (Inr (map (\<lambda>r. Num (Fin r)) rs'), ch1)"
    unfolding c by (auto split: option.splits sum.splits prod.splits simp: map_eq_Cons_conv)
  show ?case
    unfolding c using e Cons.IH[OF rest Cons.prems(2)] by simp
qed





lemma foldl_abs_finite:
  "foldl num_add (Fin a)
     (map (\<lambda>(r, T). num_sub (Fin m) (num_abs (num_sub (Fin r) T))) (zip rs (map Fin ts))) =
   Fin (a + (\<Sum>(r, t)\<leftarrow>zip rs ts. m - \<bar>r - t\<bar>))"
proof (induction rs arbitrary: ts a)
  case Nil
  then show ?case by simp
next
  case (Cons r rs)
  show ?case
  proof (cases ts)
    case Nil
    then show ?thesis by simp
  next
    case (Cons t ts')
    show ?thesis unfolding Cons using Cons.IH[of "a + (m - \<bar>r - t\<bar>)" ts']
      by (simp add: num_sub_def add.assoc)
  qed
qed



lemma absolute_fitness_all:
  "list_all2 (\<lambda>ch p. absolute_fitness_one cfg M ch = Some (Inr (fst p), snd p)) chs ps \<Longrightarrow>
     absolute_fitness cfg M chs = Some (Inr (map fst ps), map snd ps)"
  by (induction chs ps rule: list_all2_induct) simp_all


lemma evaluate_fitness: "evaluate cfg ch tv = Some (r, ch1) \<Longrightarrow> fitness' ch1 = fitness' ch"
  by (auto simp: evaluate_def Let_def split: option.splits sum.splits prod.splits if_splits)

lemma gene_levels_axx: "gene_levels example_config ''axx'' = [''a'']"
  unfolding gene_levels_def list.case
  apply (subst spec_levels.simps)
  apply (simp add: sum_args_def)
  done

lemma build_tree_axx: "build_tree example_config ''axx'' = Inr (Node ''a'' [])"
  by (simp add: build_tree_spec gene_levels_axx sum_args_def)

lemma evaluate_axx:
  "evaluate example_config (example_chromosome [''axx'']) [(''x'', Num (Fin 2))] =
     Some (Inl KeyError, (example_chromosome [''axx''])\<lparr>trees := [Node ''a'' []]\<rparr>)"
  by (simp add: evaluate_single[OF build_tree_axx] isdigit_0)

lemma evaluate_div2:
  "evaluate example_config (example_chromosome [''/x0'']) [(''x'', Num (Fin 2))] =
     Some (Inr (Num NaN),
       (example_chromosome [''/x0''])
         \<lparr>trees := [Node ''/'' [Node ''x'' [], Node ''0'' []]],
          values' := [[(''x'', Num (Fin 2))] \<mapsto> Num NaN]\<rparr>)"
  by (simp add: evaluate_single[OF build_tree_div] value_fingerprint_def isdigit_0 py_int_0)

lemma example_cases [simp]:
  "fitness_cases example_config = [([(''x'', Num (Fin 2))], Fin 4)]"
  by (simp add: example_config_def)

lemma example_fitness [simp]: "fitness' (example_chromosome gs) = None"
  by (simp add: example_chromosome_def)


lemma evaluate_cases_fitness:
  "evaluate_cases cfg ch bs = Some (r, ch1) \<Longrightarrow> fitness' ch1 = fitness' ch"
proof (induction bs arbitrary: ch r ch1)
  case Nil
  then show ?case by simp
next
  case (Cons b bs)
  show ?case
  proof (cases "evaluate cfg ch b")
    case None
    with Cons.prems show ?thesis by simp
  next
    case (Some p)
    obtain q ch' where p: "p = (q, ch')" by (cases p)
    note f = evaluate_fitness[OF Some[unfolded p]]
    show ?thesis
    proof (cases q)
      case (Inl e)
      with Cons.prems Some p f show ?thesis by simp
    next
      case (Inr v)
      with Cons.prems Some p obtain r' where "evaluate_cases cfg ch' bs = Some (r', ch1)"
        by (auto split: option.splits sum.splits prod.splits)
      from Cons.IH[OF this] f show ?thesis by simp
    qed
  qed
qed

lemma evaluate_cases_plus_x2:
  "evaluate_cases example_config (example_chromosome [''+x2'']) (map fst (fitness_cases example_config)) =
     Some (Inr (map (\<lambda>r. Num (Fin r)) [4]), ((example_chromosome [''+x2''])
           \<lparr>trees := [Node ''+'' [Node ''x'' [], Node ''2'' []]],
            values' := [[(''x'', Num (Fin 2))] \<mapsto> Num (Fin 4)]\<rparr>))"
  by (simp add: evaluate_plus_x2)

text \<open>
  C7 (counterexample). The claim promises a returned sum for every chromosome without a
  stored fitness. The chromosome with the single gene \<open>axx\<close> decodes to the terminal \<open>a\<close>,
  which the fitness case \<open>{x: 2}\<close> does not bind: \<open>evaluate\<close> raises KeyError and
  \<open>absolute_fitness\<close> returns nothing.
\<close>

theorem absolute_fitness_raises_counterexample:
  "absolute_fitness example_config (Fin 10) [(example_chromosome [''axx''])] = Some (Inl KeyError, [((example_chromosome [''axx''])
        \<lparr>trees := [Node ''a'' []]\<rparr>)])"
  by (simp add: absolute_fitness_one_def evaluate_axx)

text \<open>
  C7 (amended). For a chromosome without a stored fitness: when every fitness case
  evaluates to a finite real, \<open>absolute_fitness\<close> returns and stores the sum over the
  cases, in their order, of \<open>M - |C - T|\<close> (the real sum for a finite \<open>M\<close> and finite
  targets); when the cases before some case evaluate to finite reals and that case
  evaluates to NaN, an infinity or a complex value, the fitness is 0; when that case
  raises, the exception propagates and no fitness is stored. The results of the
  chromosomes are collected in order. With \<open>M = 10\<close> and the single case with target 4,
  a chromosome that evaluates to 4 receives fitness 10.
\<close>

theorem absolute_fitness_sum:
  "(fitness' ch = None \<and>
    evaluate_cases cfg ch (map fst (fitness_cases cfg)) = Some (Inr (map (\<lambda>r. Num (Fin r)) rs), ch') \<longrightarrow>
      absolute_fitness_one cfg M ch = Some (Inr (foldl num_add (Fin 0) (map (\<lambda>(r, T). num_sub M (num_abs (num_sub (Fin r) T))) (zip rs (map snd (fitness_cases cfg))))), ch'\<lparr>fitness' := Some (foldl num_add (Fin 0) (map (\<lambda>(r, T). num_sub M (num_abs (num_sub (Fin r) T))) (zip rs (map snd (fitness_cases cfg)))))\<rparr>)) \<and>
   foldl num_add (Fin 0)
     (map (\<lambda>(r, T). num_sub (Fin m) (num_abs (num_sub (Fin r) T))) (zip rs (map Fin ts))) =
     Fin (\<Sum>(r, t)\<leftarrow>zip rs ts. m - \<bar>r - t\<bar>) \<and>
   (fitness' ch = None \<and> fitness_cases cfg = pre @ (b, T) # post \<and>
    evaluate_cases cfg ch (map fst pre) = Some (Inr (map (\<lambda>r. Num (Fin r)) rs), ch') \<and>
    evaluate cfg ch' b = Some (Inr v, ch'') \<and> bad_value v = Inr True \<longrightarrow>
      absolute_fitness_one cfg M ch = Some (Inr (Fin 0), ch''\<lparr>fitness' := Some (Fin 0)\<rparr>)) \<and>
   (fitness' ch = None \<and> fitness_cases cfg = pre @ (b, T) # post \<and>
    evaluate_cases cfg ch (map fst pre) = Some (Inr (map (\<lambda>r. Num (Fin r)) rs), ch') \<and>
    evaluate cfg ch' b = Some (Inl e, ch'') \<longrightarrow>
      absolute_fitness_one cfg M ch = Some (Inl e, ch'') \<and> fitness' ch'' = None) \<and>
   (list_all2 (\<lambda>c p. absolute_fitness_one cfg M c = Some (Inr (fst p), snd p)) chs ps \<longrightarrow>
      absolute_fitness cfg M chs = Some (Inr (map fst ps), map snd ps)) \<and>
   (fitness' ch = None \<and> fitness_cases cfg = [(b, Fin 4)] \<and>
    evaluate cfg ch b = Some (Inr (Num (Fin 4)), ch') \<longrightarrow>
      absolute_fitness cfg (Fin 10) [ch] =
        Some (Inr [Fin 10], [ch'\<lparr>fitness' := Some (Fin 10)\<rparr>]))"
proof (intro conjI impI)
  assume "fitness' ch = None \<and>
    evaluate_cases cfg ch (map fst (fitness_cases cfg)) = Some (Inr (map (\<lambda>r. Num (Fin r)) rs), ch')"
  then show "absolute_fitness_one cfg M ch = Some (Inr (foldl num_add (Fin 0) (map (\<lambda>(r, T). num_sub M (num_abs (num_sub (Fin r) T))) (zip rs (map snd (fitness_cases cfg))))), ch'\<lparr>fitness' := Some (foldl num_add (Fin 0) (map (\<lambda>(r, T). num_sub M (num_abs (num_sub (Fin r) T))) (zip rs (map snd (fitness_cases cfg)))))\<rparr>)"
    by (simp add: absolute_fitness_one_def abs_cases_finite)
next
  show "foldl num_add (Fin 0)
     (map (\<lambda>(r, T). num_sub (Fin m) (num_abs (num_sub (Fin r) T))) (zip rs (map Fin ts))) =
     Fin (\<Sum>(r, t)\<leftarrow>zip rs ts. m - \<bar>r - t\<bar>)"
    using foldl_abs_finite[of 0 m rs ts] by simp
next
  assume "fitness' ch = None \<and> fitness_cases cfg = pre @ (b, T) # post \<and>
    evaluate_cases cfg ch (map fst pre) = Some (Inr (map (\<lambda>r. Num (Fin r)) rs), ch') \<and>
    evaluate cfg ch' b = Some (Inr v, ch'') \<and> bad_value v = Inr True"
  then show "absolute_fitness_one cfg M ch = Some (Inr (Fin 0), ch''\<lparr>fitness' := Some (Fin 0)\<rparr>)"
    by (simp add: absolute_fitness_one_def abs_cases_bad)
next
  assume a: "fitness' ch = None \<and> fitness_cases cfg = pre @ (b, T) # post \<and>
    evaluate_cases cfg ch (map fst pre) = Some (Inr (map (\<lambda>r. Num (Fin r)) rs), ch') \<and>
    evaluate cfg ch' b = Some (Inl e, ch'')"
  then show "absolute_fitness_one cfg M ch = Some (Inl e, ch'')"
    by (simp add: absolute_fitness_one_def abs_cases_raises)
  from a have "fitness' ch' = None" "fitness' ch'' = fitness' ch'"
    using evaluate_cases_fitness[of cfg ch "map fst pre" _ ch'] evaluate_fitness[of cfg ch' b _ ch'']
    by simp_all
  then show "fitness' ch'' = None" by simp
next
  assume "list_all2 (\<lambda>c p. absolute_fitness_one cfg M c = Some (Inr (fst p), snd p)) chs ps"
  then show "absolute_fitness cfg M chs = Some (Inr (map fst ps), map snd ps)"
    by (rule absolute_fitness_all)
next
  assume "fitness' ch = None \<and> fitness_cases cfg = [(b, Fin 4)] \<and>
    evaluate cfg ch b = Some (Inr (Num (Fin 4)), ch')"
  then show "absolute_fitness cfg (Fin 10) [ch] =
        Some (Inr [Fin 10], [ch'\<lparr>fitness' := Some (Fin 10)\<rparr>])"
    by (simp add: absolute_fitness_one_def num_sub_def)
qed

theorem absolute_fitness_sum_witness:
  "fitness' (example_chromosome [''+x2'']) = None \<and>
   fitness_cases example_config = [([(''x'', Num (Fin 2))], Fin 4)] \<and>
   evaluate example_config (example_chromosome [''+x2'']) [(''x'', Num (Fin 2))] = Some (Inr (Num (Fin 4)), ((example_chromosome [''+x2''])
         \<lparr>trees := [Node ''+'' [Node ''x'' [], Node ''2'' []]],
          values' := [[(''x'', Num (Fin 2))] \<mapsto> Num (Fin 4)]\<rparr>)) \<and>
   evaluate_cases example_config (example_chromosome [''+x2'']) (map fst (fitness_cases example_config)) =
     Some (Inr (map (\<lambda>r. Num (Fin r)) [4]), ((example_chromosome [''+x2''])
           \<lparr>trees := [Node ''+'' [Node ''x'' [], Node ''2'' []]],
            values' := [[(''x'', Num (Fin 2))] \<mapsto> Num (Fin 4)]\<rparr>)) \<and>
   absolute_fitness_one example_config (Fin 10) (example_chromosome [''+x2'']) =
     Some (Inr (Fin 10), ((example_chromosome [''+x2''])
           \<lparr>trees := [Node ''+'' [Node ''x'' [], Node ''2'' []]],
            values' := [[(''x'', Num (Fin 2))] \<mapsto> Num (Fin 4)]\<rparr>)\<lparr>fitness' := Some (Fin 10)\<rparr>) \<and>
   absolute_fitness example_config (Fin 10) [(example_chromosome [''+x2''])] =
     Some (Inr [Fin 10], [((example_chromosome [''+x2''])
           \<lparr>trees := [Node ''+'' [Node ''x'' [], Node ''2'' []]],
            values' := [[(''x'', Num (Fin 2))] \<mapsto> Num (Fin 4)]\<rparr>)\<lparr>fitness' := Some (Fin 10)\<rparr>]) \<and>
   evaluate example_config (example_chromosome [''/x0'']) [(''x'', Num (Fin 2))] = Some (Inr (Num NaN), ((example_chromosome [''/x0''])
         \<lparr>trees := [Node ''/'' [Node ''x'' [], Node ''0'' []]],
          values' := [[(''x'', Num (Fin 2))] \<mapsto> Num NaN]\<rparr>)) \<and>
   bad_value (Num NaN) = Inr True \<and>
   absolute_fitness_one example_config (Fin 10) (example_chromosome [''/x0'']) =
     Some (Inr (Fin 0), ((example_chromosome [''/x0''])
           \<lparr>trees := [Node ''/'' [Node ''x'' [], Node ''0'' []]],
            values' := [[(''x'', Num (Fin 2))] \<mapsto> Num NaN]\<rparr>)\<lparr>fitness' := Some (Fin 0)\<rparr>) \<and>
   evaluate example_config (example_chromosome [''axx'']) [(''x'', Num (Fin 2))] = Some (Inl KeyError, ((example_chromosome [''axx''])
         \<lparr>trees := [Node ''a'' []]\<rparr>)) \<and>
   absolute_fitness_one example_config (Fin 10) (example_chromosome [''axx'']) = Some (Inl KeyError, ((example_chromosome [''axx''])
         \<lparr>trees := [Node ''a'' []]\<rparr>)) \<and>
   list_all2 (\<lambda>c p. absolute_fitness_one example_config (Fin 10) c = Some (Inr (fst p), snd p))
     [(example_chromosome [''+x2'']), (example_chromosome [''/x0''])]
     [(Fin 10, ((example_chromosome [''+x2''])
           \<lparr>trees := [Node ''+'' [Node ''x'' [], Node ''2'' []]],
            values' := [[(''x'', Num (Fin 2))] \<mapsto> Num (Fin 4)]\<rparr>)\<lparr>fitness' := Some (Fin 10)\<rparr>), (Fin 0, ((example_chromosome [''/x0''])
           \<lparr>trees := [Node ''/'' [Node ''x'' [], Node ''0'' []]],
            values' := [[(''x'', Num (Fin 2))] \<mapsto> Num NaN]\<rparr>)\<lparr>fitness' := Some (Fin 0)\<rparr>)] \<and>
   absolute_fitness example_config (Fin 10) [(example_chromosome [''+x2'']), (example_chromosome [''/x0''])] =
     Some (Inr [Fin 10, Fin 0],
           [((example_chromosome [''+x2''])
                 \<lparr>trees := [Node ''+'' [Node ''x'' [], Node ''2'' []]],
                  values' := [[(''x'', Num (Fin 2))] \<mapsto> Num (Fin 4)]\<rparr>)\<lparr>fitness' := Some (Fin 10)\<rparr>, ((example_chromosome [''/x0''])
                 \<lparr>trees := [Node ''/'' [Node ''x'' [], Node ''0'' []]],
                  values' := [[(''x'', Num (Fin 2))] \<mapsto> Num NaN]\<rparr>)\<lparr>fitness' := Some (Fin 0)\<rparr>])"
proof -
  note t = absolute_fitness_sum
  have p: "absolute_fitness_one example_config (Fin 10) (example_chromosome [''+x2'']) =
     Some (Inr (Fin 10), ((example_chromosome [''+x2''])
           \<lparr>trees := [Node ''+'' [Node ''x'' [], Node ''2'' []]],
            values' := [[(''x'', Num (Fin 2))] \<mapsto> Num (Fin 4)]\<rparr>)\<lparr>fitness' := Some (Fin 10)\<rparr>)"
    using t[where cfg = example_config
        and ch = "(example_chromosome [''+x2''])"
        and rs = "[4]"
        and ch' = "((example_chromosome [''+x2''])
          \<lparr>trees := [Node ''+'' [Node ''x'' [], Node ''2'' []]],
           values' := [[(''x'', Num (Fin 2))] \<mapsto> Num (Fin 4)]\<rparr>)"
        and M = "Fin 10", THEN conjunct1]
    by (simp add: evaluate_plus_x2 num_sub_def)
  have p1: "absolute_fitness example_config (Fin 10) [(example_chromosome [''+x2''])] =
     Some (Inr [Fin 10], [((example_chromosome [''+x2''])
           \<lparr>trees := [Node ''+'' [Node ''x'' [], Node ''2'' []]],
            values' := [[(''x'', Num (Fin 2))] \<mapsto> Num (Fin 4)]\<rparr>)\<lparr>fitness' := Some (Fin 10)\<rparr>])"
    using t[where cfg = example_config
        and ch = "(example_chromosome [''+x2''])"
        and ch' = "((example_chromosome [''+x2''])
          \<lparr>trees := [Node ''+'' [Node ''x'' [], Node ''2'' []]],
           values' := [[(''x'', Num (Fin 2))] \<mapsto> Num (Fin 4)]\<rparr>)"
        and b = "[(''x'', Num (Fin 2))]"]
    by (simp add: evaluate_plus_x2)
  have d: "absolute_fitness_one example_config (Fin 10) (example_chromosome [''/x0'']) =
     Some (Inr (Fin 0), ((example_chromosome [''/x0''])
           \<lparr>trees := [Node ''/'' [Node ''x'' [], Node ''0'' []]],
            values' := [[(''x'', Num (Fin 2))] \<mapsto> Num NaN]\<rparr>)\<lparr>fitness' := Some (Fin 0)\<rparr>)"
    using t[where cfg = example_config
        and ch = "(example_chromosome [''/x0''])"
        and pre = "[]"
        and b = "[(''x'', Num (Fin 2))]"
        and T = "Fin 4"
       
            and post = "[]"
            and rs = "[]"
            and ch' = "(example_chromosome [''/x0''])"
            and v = "Num NaN"
            and ch'' = "((example_chromosome [''/x0''])
              \<lparr>trees := [Node ''/'' [Node ''x'' [], Node ''0'' []]],
               values' := [[(''x'', Num (Fin 2))] \<mapsto> Num NaN]\<rparr>)"
        and M = "Fin 10"]
    by (simp add: evaluate_div2)
  have a: "absolute_fitness_one example_config (Fin 10) (example_chromosome [''axx'']) = Some (Inl KeyError, ((example_chromosome [''axx''])
        \<lparr>trees := [Node ''a'' []]\<rparr>))"
    using t[where cfg = example_config
        and ch = "(example_chromosome [''axx''])"
        and pre = "[]"
        and b = "[(''x'', Num (Fin 2))]"
        and T = "Fin 4"
       
            and post = "[]"
            and rs = "[]"
            and ch' = "(example_chromosome [''axx''])"
            and e = KeyError
            and ch'' = "((example_chromosome [''axx''])\<lparr>trees := [Node ''a'' []]\<rparr>)"
        and M = "Fin 10"]
    by (simp add: evaluate_axx)
  have l: "absolute_fitness example_config (Fin 10) [(example_chromosome [''+x2'']), (example_chromosome [''/x0''])] =
     Some (Inr [Fin 10, Fin 0],
           [((example_chromosome [''+x2''])
                 \<lparr>trees := [Node ''+'' [Node ''x'' [], Node ''2'' []]],
                  values' := [[(''x'', Num (Fin 2))] \<mapsto> Num (Fin 4)]\<rparr>)\<lparr>fitness' := Some (Fin 10)\<rparr>, ((example_chromosome [''/x0''])
                 \<lparr>trees := [Node ''/'' [Node ''x'' [], Node ''0'' []]],
                  values' := [[(''x'', Num (Fin 2))] \<mapsto> Num NaN]\<rparr>)\<lparr>fitness' := Some (Fin 0)\<rparr>])"
    using t[where cfg = example_config
        and M = "Fin 10"
        and chs = "[(example_chromosome [''+x2'']), (example_chromosome [''/x0''])]"
       
            and ps = "[(Fin 10, ((example_chromosome [''+x2''])
              \<lparr>trees := [Node ''+'' [Node ''x'' [], Node ''2'' []]],
               values' := [[(''x'', Num (Fin 2))] \<mapsto> Num (Fin 4)]\<rparr>)\<lparr>fitness' := Some (Fin 10)\<rparr>),
                   (Fin 0, ((example_chromosome [''/x0''])
                         \<lparr>trees := [Node ''/'' [Node ''x'' [], Node ''0'' []]],
                          values' := [[(''x'', Num (Fin 2))] \<mapsto> Num NaN]\<rparr>)\<lparr>fitness' := Some (Fin 0)\<rparr>)]"] p d
    by simp
  from p p1 d a l show ?thesis
    by (simp add: evaluate_plus_x2 evaluate_div2 evaluate_axx)
qed






subsection \<open>The fitness getter\<close>

text \<open>
  C9. \<open>fitness()\<close> is a total function of the chromosome: it reads the stored fitness and
  has no failing branch (under Python's default warning filter, where \<open>warn\<close> returns).
  With a stored fitness it returns that value and issues no warning; without one it
  returns 0 and issues exactly one warning. After \<open>absolute_fitness\<close> or
  \<open>inv_squared_error\<close> returned a fitness for a chromosome, the getter returns that
  fitness.
\<close>

theorem fitness_getter:
  "(fitness' ch = Some v \<longrightarrow> fitness ch = (v, [])) \<and>
   (fitness' ch = None \<longrightarrow>
      fitness ch =
        (Fin 0, [''Fitness of chromosome has not been properly calculated. Returning 0.''])) \<and>
   (absolute_fitness_one cfg M ch = Some (Inr f, ch') \<longrightarrow> fitness ch' = (f, [])) \<and>
   (inv_squared_error_one cfg ch = Some (Inr g, ch'') \<longrightarrow> fitness ch'' = (g, []))"
  by (auto simp: fitness_def absolute_fitness_one_def inv_squared_error_one_def
      split: option.splits sum.splits prod.splits)

theorem fitness_getter_witness:
  "fitness' ((example_chromosome [''+x2''])\<lparr>fitness' := Some (Fin 3)\<rparr>) = Some (Fin 3) \<and>
   fitness ((example_chromosome [''+x2''])\<lparr>fitness' := Some (Fin 3)\<rparr>) = (Fin 3, []) \<and>
   fitness' (example_chromosome [''+x2'']) = None \<and>
   fitness (example_chromosome [''+x2'']) =
     (Fin 0, [''Fitness of chromosome has not been properly calculated. Returning 0.'']) \<and>
   absolute_fitness_one example_config (Fin 10) (example_chromosome [''+x2'']) =
     Some (Inr (Fin 10), ((example_chromosome [''+x2''])
           \<lparr>trees := [Node ''+'' [Node ''x'' [], Node ''2'' []]],
            values' := [[(''x'', Num (Fin 2))] \<mapsto> Num (Fin 4)]\<rparr>)\<lparr>fitness' := Some (Fin 10)\<rparr>) \<and>
   fitness (((example_chromosome [''+x2''])
         \<lparr>trees := [Node ''+'' [Node ''x'' [], Node ''2'' []]],
          values' := [[(''x'', Num (Fin 2))] \<mapsto> Num (Fin 4)]\<rparr>)\<lparr>fitness' := Some (Fin 10)\<rparr>) = (Fin 10, []) \<and>
   inv_squared_error_one example_config (example_chromosome [''+x2'']) =
     Some (Inr (Fin 1), ((example_chromosome [''+x2''])
           \<lparr>trees := [Node ''+'' [Node ''x'' [], Node ''2'' []]],
            values' := [[(''x'', Num (Fin 2))] \<mapsto> Num (Fin 4)]\<rparr>)\<lparr>fitness' := Some (Fin 1)\<rparr>) \<and>
   fitness (((example_chromosome [''+x2''])
         \<lparr>trees := [Node ''+'' [Node ''x'' [], Node ''2'' []]],
          values' := [[(''x'', Num (Fin 2))] \<mapsto> Num (Fin 4)]\<rparr>)\<lparr>fitness' := Some (Fin 1)\<rparr>) = (Fin 1, [])"
proof -
  have a: "absolute_fitness_one example_config (Fin 10) (example_chromosome [''+x2'']) =
     Some (Inr (Fin 10), ((example_chromosome [''+x2''])
           \<lparr>trees := [Node ''+'' [Node ''x'' [], Node ''2'' []]],
            values' := [[(''x'', Num (Fin 2))] \<mapsto> Num (Fin 4)]\<rparr>)\<lparr>fitness' := Some (Fin 10)\<rparr>)"
    by (simp add: absolute_fitness_one_def evaluate_plus_x2 num_sub_def)
  have i: "inv_squared_error_one example_config (example_chromosome [''+x2'']) =
     Some (Inr (Fin 1), ((example_chromosome [''+x2''])
           \<lparr>trees := [Node ''+'' [Node ''x'' [], Node ''2'' []]],
            values' := [[(''x'', Num (Fin 2))] \<mapsto> Num (Fin 4)]\<rparr>)\<lparr>fitness' := Some (Fin 1)\<rparr>)"
    by (simp add: inv_squared_error_one_def evaluate_plus_x2 num_sub_def)
  from a i
    fitness_getter[where ch = "(example_chromosome [''+x2''])\<lparr>fitness' := Some (Fin 3)\<rparr>"
        and v = "Fin 3"]
    fitness_getter[where ch = "(example_chromosome [''+x2''])"
        and cfg = example_config
        and M = "Fin 10"
        and f = "Fin 10"
        and ch' = "((example_chromosome [''+x2''])
          \<lparr>trees := [Node ''+'' [Node ''x'' [], Node ''2'' []]],
           values' := [[(''x'', Num (Fin 2))] \<mapsto> Num (Fin 4)]\<rparr>)\<lparr>fitness' := Some (Fin 10)\<rparr>"
        and g = "Fin 1"
        and ch'' = "((example_chromosome [''+x2''])
          \<lparr>trees := [Node ''+'' [Node ''x'' [], Node ''2'' []]],
           values' := [[(''x'', Num (Fin 2))] \<mapsto> Num (Fin 4)]\<rparr>)\<lparr>fitness' := Some (Fin 1)\<rparr>"]
  show ?thesis by simp
qed

end
